theory Spec2Isabelle
  imports
    Complex_Main
    "HOL-Library.Char_ord"
    "HOL-Library.List_Lexorder"
    "HOL-Library.Option_ord"
    "HOL-Library.Product_Lexorder"
    "HOL-Library.Multiset"
begin

section \<open>Values crossing the JavaScript / SQLite boundary\<close>

text \<open>
  An optional property of a JavaScript object is absent (\<open>undefined\<close>), \<open>null\<close>, or holds
  a value. The sqlite3 driver binds both \<open>undefined\<close> and \<open>null\<close> as SQL NULL; a column
  value is an \<open>option\<close>, with \<open>None\<close> for NULL.
\<close>

datatype 'a js_opt = JSUndefined | JSNull | JSVal 'a

fun bind :: "'a js_opt \<Rightarrow> 'a option" where
  "bind JSUndefined = None"
| "bind JSNull = None"
| "bind (JSVal v) = Some v"

text \<open>SQL \<open>COALESCE(x, y)\<close> with a column as second argument.\<close>

fun coalesce :: "'a option \<Rightarrow> 'a option \<Rightarrow> 'a option" where
  "coalesce (Some v) old = Some v"
| "coalesce None old = old"

text \<open>
  JavaScript \<open>x || d\<close> on a string-valued property: \<open>undefined\<close>, \<open>null\<close> and the empty
  string are falsy, every other string is truthy.
\<close>

fun js_or :: "string js_opt \<Rightarrow> string \<Rightarrow> string" where
  "js_or JSUndefined d = d"
| "js_or JSNull d = d"
| "js_or (JSVal s) d = (if s = [] then d else s)"

section \<open>Schema and rows\<close>

text \<open>
  The errors the store reports: constraint failures, named as SQLite names them, and
  misuse of transaction control.
\<close>

datatype error =
    UniqueFailed string
  | CheckFailed string
  | ForeignKeyFailed
  | TransactionError string
  | DatatypeMismatch
  | TypeError string

text \<open>
  The columns \<open>direction\<close> and \<open>status\<close> of a trade are TEXT with a CHECK constraint
  listing the admitted strings; a stored row holds one of them.
\<close>

datatype direction = Long | Short

datatype status = Open | Closed

fun parse_direction :: "string \<Rightarrow> direction option" where
  "parse_direction s =
     (if s = ''long'' then Some Long else if s = ''short'' then Some Short else None)"

fun parse_status :: "string \<Rightarrow> status option" where
  "parse_status s =
     (if s = ''open'' then Some Open else if s = ''closed'' then Some Closed else None)"

record user =
  u_id :: nat
  username :: string
  email :: string
  password_hash :: string
  u_created_at :: string
  u_updated_at :: string

record settings =
  s_user_id :: nat
  default_currency :: string
  theme :: string
  s_created_at :: string
  s_updated_at :: string

record sub_account =
  sa_id :: nat
  sa_user_id :: nat
  sa_name :: string
  sa_description :: "string option"
  sa_broker :: "string option"
  sa_created_at :: string
  sa_updated_at :: string

record trade =
  t_id :: nat
  t_user_id :: nat
  sub_account_id :: "nat option"
  ticker :: string
  quantity :: real
  entry_price :: real
  exit_price :: "real option"
  direction :: direction
  status :: status
  entry_date :: string
  exit_date :: "string option"
  t_notes :: "string option"
  commission :: "real option"
  t_created_at :: string
  t_updated_at :: string

text \<open>
  The database file: four tables in rowid order, and for each AUTOINCREMENT table the
  largest rowid ever handed out (SQLite keeps it in \<open>sqlite_sequence\<close>).
\<close>

record tables =
  users :: "user list"
  user_settings :: "settings list"
  sub_accounts :: "sub_account list"
  trades :: "trade list"
  users_seq :: nat
  sub_accounts_seq :: nat
  trades_seq :: nat

definition empty_tables :: tables where
  "empty_tables =
     \<lparr>users = [], user_settings = [], sub_accounts = [], trades = [],
      users_seq = 0, sub_accounts_seq = 0, trades_seq = 0\<rparr>"

text \<open>
  The two schema scripts of the repository differ on the \<open>users\<close> table:
  \<open>src/db/database.js\<close> declares \<open>username TEXT NOT NULL\<close> and \<open>email TEXT NOT NULL\<close>,
  \<open>src/db/database_test_env.js\<close> declares both \<open>UNIQUE NOT NULL\<close>.
\<close>

record schema =
  username_unique :: bool
  email_unique :: bool

definition database_js :: schema where
  "database_js = \<lparr>username_unique = False, email_unique = False\<rparr>"

definition database_test_env_js :: schema where
  "database_test_env_js = \<lparr>username_unique = True, email_unique = True\<rparr>"

section \<open>Statements\<close>

text \<open>
  \<open>INTEGER PRIMARY KEY AUTOINCREMENT\<close>: the new rowid is one more than the largest
  rowid the table ever held.
\<close>

definition next_rowid :: "nat \<Rightarrow> nat list \<Rightarrow> nat" where
  "next_rowid seq ids = Suc (fold max ids seq)"

text \<open>
  \<open>UPDATE t SET ... WHERE p\<close>: every row satisfying \<open>p\<close> is rewritten; the driver reports
  the number of rows rewritten as \<open>this.changes\<close>.
\<close>

definition sql_update :: "('r \<Rightarrow> bool) \<Rightarrow> ('r \<Rightarrow> 'r) \<Rightarrow> 'r list \<Rightarrow> nat \<times> 'r list" where
  "sql_update p f rows = (length (filter p rows), map (\<lambda>r. if p r then f r else r) rows)"

text \<open>\<open>DELETE FROM t WHERE p\<close>.\<close>

definition sql_delete :: "('r \<Rightarrow> bool) \<Rightarrow> 'r list \<Rightarrow> nat \<times> 'r list" where
  "sql_delete p rows = (length (filter p rows), filter (\<lambda>r. \<not> p r) rows)"

section \<open>Trade repository\<close>

subsection \<open>createTrade\<close>

record trade_data =
  td_userId :: nat
  td_subAccountId :: "nat js_opt"
  td_ticker :: string
  td_quantity :: real
  td_entryPrice :: real
  td_direction :: string
  td_entryDate :: string
  td_exitDate :: "string js_opt"
  td_exitPrice :: "real js_opt"
  td_notes :: "string js_opt"
  td_commission :: "real js_opt"
  td_status :: "string js_opt"

text \<open>
  \<open>INSERT INTO trades (...)\<close> with the CHECK and FOREIGN KEY constraints of the table
  (foreign keys are switched on by both connection modules). A failing statement
  leaves the tables as they were.
\<close>

definition insert_trade ::
  "nat \<Rightarrow> nat option \<Rightarrow> string \<Rightarrow> real \<Rightarrow> real \<Rightarrow> string \<Rightarrow> string \<Rightarrow> string option \<Rightarrow>
   real option \<Rightarrow> string option \<Rightarrow> real option \<Rightarrow> string \<Rightarrow> string \<Rightarrow> string \<Rightarrow>
   tables \<Rightarrow> error + (nat \<times> tables)" where
  "insert_trade uid sid tk qty ep dir ed xd xp nt cm st cr up db =
     (if \<not> 0 < qty then Inl (CheckFailed ''quantity > 0'')
      else case parse_direction dir of
        None \<Rightarrow> Inl (CheckFailed ''direction IN ('long', 'short')'')
      | Some d \<Rightarrow>
         (case parse_status st of
            None \<Rightarrow> Inl (CheckFailed ''status IN ('open', 'closed')'')
          | Some s \<Rightarrow>
             if uid \<notin> set (map u_id (users db)) then Inl ForeignKeyFailed
             else if (case sid of None \<Rightarrow> False
                      | Some i \<Rightarrow> i \<notin> set (map sa_id (sub_accounts db)))
             then Inl ForeignKeyFailed
             else
               let new_id = next_rowid (trades_seq db) (map t_id (trades db));
                   row = \<lparr>t_id = new_id, t_user_id = uid, sub_account_id = sid, ticker = tk,
                          quantity = qty, entry_price = ep, exit_price = xp, direction = d,
                          status = s, entry_date = ed, exit_date = xd, t_notes = nt,
                          commission = cm, t_created_at = cr, t_updated_at = up\<rparr>
               in Inr (new_id, db\<lparr>trades := trades db @ [row], trades_seq := new_id\<rparr>)))"

definition createTrade :: "string \<Rightarrow> trade_data \<Rightarrow> tables \<Rightarrow> (error + nat) \<times> tables" where
  "createTrade now tradeData db =
     (case insert_trade (td_userId tradeData) (bind (td_subAccountId tradeData))
             (td_ticker tradeData) (td_quantity tradeData) (td_entryPrice tradeData)
             (td_direction tradeData) (td_entryDate tradeData)
             (bind (td_exitDate tradeData)) (bind (td_exitPrice tradeData))
             (bind (td_notes tradeData)) (bind (td_commission tradeData))
             (js_or (td_status tradeData) ''open'') now now db of
        Inl err \<Rightarrow> (Inl err, db)
      | Inr (lastID, db') \<Rightarrow> (Inr lastID, db'))"

subsection \<open>findTradeById\<close>

definition findTradeById :: "nat \<Rightarrow> tables \<Rightarrow> trade option" where
  "findTradeById tid db = find (\<lambda>r. t_id r = tid) (trades db)"

subsection \<open>closeTrade\<close>

record close_data =
  cd_id :: nat
  cd_exitPrice :: real
  cd_exitDate :: string
  cd_notes :: "string js_opt"
  cd_commission :: "real js_opt"

text \<open>The SET clause of the UPDATE in \<open>closeTrade\<close>, applied to one row.\<close>

definition close_set :: "string \<Rightarrow> close_data \<Rightarrow> trade \<Rightarrow> trade" where
  "close_set now closeData r =
     r\<lparr>exit_price := Some (cd_exitPrice closeData),
       exit_date := Some (cd_exitDate closeData),
       status := Closed,
       t_updated_at := now,
       t_notes := coalesce (bind (cd_notes closeData)) (t_notes r),
       commission := coalesce (bind (cd_commission closeData)) (commission r)\<rparr>"

text \<open>
  The statement run by \<open>closeTrade\<close>. None of the values it writes can violate a
  constraint of the table (the written columns are nullable, \<open>updated_at\<close> receives a
  string and \<open>status\<close> an admitted value), so the store reports no error for it.
\<close>

definition run_close_update ::
  "string \<Rightarrow> close_data \<Rightarrow> tables \<Rightarrow> error + (nat \<times> tables)" where
  "run_close_update now closeData db =
     (let (changes, rows) =
            sql_update (\<lambda>r. t_id r = cd_id closeData \<and> status r = Open)
              (close_set now closeData) (trades db)
      in Inr (changes, db\<lparr>trades := rows\<rparr>))"

definition closeTrade :: "string \<Rightarrow> close_data \<Rightarrow> tables \<Rightarrow> (error + bool) \<times> tables" where
  "closeTrade now closeData db =
     (case run_close_update now closeData db of
        Inl err \<Rightarrow> (Inl err, db)
      | Inr (changes, db') \<Rightarrow> (Inr (0 < changes), db'))"

subsection \<open>updateTradeDetails\<close>

text \<open>
  \<open>fieldsToUpdate\<close> and \<open>params\<close> are built side by side; one entry of the model stands
  for a pushed \<open>"column = ?"\<close> together with its parameter.
\<close>

datatype assignment =
    Set_updated_at string
  | Set_notes "string option"
  | Set_commission "real option"

fun apply_assignment :: "assignment \<Rightarrow> trade \<Rightarrow> trade" where
  "apply_assignment (Set_updated_at v) r = r\<lparr>t_updated_at := v\<rparr>"
| "apply_assignment (Set_notes v) r = r\<lparr>t_notes := v\<rparr>"
| "apply_assignment (Set_commission v) r = r\<lparr>commission := v\<rparr>"

definition fields_to_update ::
  "string \<Rightarrow> string js_opt \<Rightarrow> real js_opt \<Rightarrow> assignment list" where
  "fields_to_update now notes_arg commission_arg =
     [Set_updated_at now]
     @ (if notes_arg \<noteq> JSUndefined then [Set_notes (bind notes_arg)] else [])
     @ (if commission_arg \<noteq> JSUndefined then [Set_commission (bind commission_arg)] else [])"

definition run_details_update ::
  "nat \<Rightarrow> assignment list \<Rightarrow> tables \<Rightarrow> error + (nat \<times> tables)" where
  "run_details_update tid fieldsToUpdate db =
     (let (changes, rows) =
            sql_update (\<lambda>r. t_id r = tid) (fold apply_assignment fieldsToUpdate) (trades db)
      in Inr (changes, db\<lparr>trades := rows\<rparr>))"

definition updateTradeDetails ::
  "string \<Rightarrow> nat \<Rightarrow> string js_opt \<Rightarrow> real js_opt \<Rightarrow> tables \<Rightarrow> (error + bool) \<times> tables" where
  "updateTradeDetails now tid notes_arg commission_arg db =
     (if notes_arg = JSUndefined \<and> commission_arg = JSUndefined then (Inr False, db)
      else case run_details_update tid (fields_to_update now notes_arg commission_arg) db of
        Inl err \<Rightarrow> (Inl err, db)
      | Inr (changes, db') \<Rightarrow> (Inr (0 < changes), db'))"

subsection \<open>deleteTrade\<close>

definition deleteTrade :: "nat \<Rightarrow> tables \<Rightarrow> (error + bool) \<times> tables" where
  "deleteTrade tid db =
     (let (changes, rows) = sql_delete (\<lambda>r. t_id r = tid) (trades db)
      in (Inr (0 < changes), db\<lparr>trades := rows\<rparr>))"

subsection \<open>findTradesBySubAccountId\<close>








section \<open>User repository\<close>

text \<open>
  \<open>INSERT INTO users (...)\<close>. The UNIQUE constraints are those of the schema script
  that created the table; when both the username and the email are taken, SQLite
  names \<open>users.email\<close>.
\<close>

definition insert_user ::
  "schema \<Rightarrow> string \<Rightarrow> string \<Rightarrow> string \<Rightarrow> string \<Rightarrow> string \<Rightarrow> tables \<Rightarrow>
   error + (nat \<times> tables)" where
  "insert_user sch un em ph cr up db =
     (if email_unique sch \<and> em \<in> set (map email (users db))
      then Inl (UniqueFailed ''users.email'')
      else if username_unique sch \<and> un \<in> set (map username (users db))
      then Inl (UniqueFailed ''users.username'')
      else
        let new_id = next_rowid (users_seq db) (map u_id (users db));
            row = \<lparr>u_id = new_id, username = un, email = em, password_hash = ph,
                   u_created_at = cr, u_updated_at = up\<rparr>
        in Inr (new_id, db\<lparr>users := users db @ [row], users_seq := new_id\<rparr>))"

text \<open>
  \<open>INSERT INTO user_settings (...)\<close>: \<open>user_id\<close> is the primary key of the table and a
  foreign key into \<open>users\<close>.
\<close>

definition insert_settings ::
  "nat \<Rightarrow> string \<Rightarrow> string \<Rightarrow> string \<Rightarrow> string \<Rightarrow> tables \<Rightarrow> error + (nat \<times> tables)" where
  "insert_settings uid cy th cr up db =
     (if uid \<in> set (map s_user_id (user_settings db))
      then Inl (UniqueFailed ''user_settings.user_id'')
      else if uid \<notin> set (map u_id (users db)) then Inl ForeignKeyFailed
      else
        let row = \<lparr>s_user_id = uid, default_currency = cy, theme = th,
                   s_created_at = cr, s_updated_at = up\<rparr>
        in Inr (uid, db\<lparr>user_settings := user_settings db @ [row]\<rparr>))"

subsection \<open>createUser and the lookups\<close>

definition createUser ::
  "schema \<Rightarrow> string \<Rightarrow> string \<Rightarrow> string \<Rightarrow> string \<Rightarrow> tables \<Rightarrow> (error + nat) \<times> tables" where
  "createUser sch now un em passwordHash db =
     (case insert_user sch un em passwordHash now now db of
        Inl err \<Rightarrow> (Inl err, db)
      | Inr (lastID, db') \<Rightarrow> (Inr lastID, db'))"

definition findUserById :: "nat \<Rightarrow> tables \<Rightarrow> user option" where
  "findUserById uid db = find (\<lambda>r. u_id r = uid) (users db)"

definition findUserByEmail :: "string \<Rightarrow> tables \<Rightarrow> user option" where
  "findUserByEmail em db = find (\<lambda>r. email r = em) (users db)"

text \<open>
  \<open>findSettingsByUserId\<close> starts with \<open>const db = await dbModule()\<close>, where \<open>dbModule\<close> is
  the default export of \<open>src/db/database.js\<close>: the Database object itself, not a
  function. The call throws, so the promise is rejected before any query, whatever
  the store holds.
\<close>

definition findSettingsByUserId :: "nat \<Rightarrow> tables \<Rightarrow> error + settings option" where
  "findSettingsByUserId userId db = Inl (TypeError ''dbModule is not a function'')"

text \<open>The names the module exports (its \<open>export { ... }\<close> statement).\<close>

definition user_repository_exports :: "string list" where
  "user_repository_exports =
     [''createUser'', ''findUserById'', ''findUserByEmail'', ''createUserWithSettings'',
      ''findSettingsByUserId'']"

subsection \<open>The connection and its transaction\<close>

text \<open>
  The shared connection: the tables as statements on this connection see them, and,
  while a transaction is open, the tables as they were when it began. BEGIN inside a
  transaction, and COMMIT or ROLLBACK outside one, are errors and change nothing.
\<close>

record conn =
  cur :: tables
  saved :: "tables option"

definition sql_begin :: "conn \<Rightarrow> error option \<times> conn" where
  "sql_begin c =
     (case saved c of
        Some _ \<Rightarrow> (Some (TransactionError ''cannot start a transaction within a transaction''), c)
      | None \<Rightarrow> (None, c\<lparr>saved := Some (cur c)\<rparr>))"

definition sql_commit :: "conn \<Rightarrow> error option \<times> conn" where
  "sql_commit c =
     (case saved c of
        None \<Rightarrow> (Some (TransactionError ''cannot commit - no transaction is active''), c)
      | Some _ \<Rightarrow> (None, c\<lparr>saved := None\<rparr>))"

definition sql_rollback :: "conn \<Rightarrow> error option \<times> conn" where
  "sql_rollback c =
     (case saved c of
        None \<Rightarrow> (Some (TransactionError ''cannot rollback - no transaction is active''), c)
      | Some db \<Rightarrow> (None, \<lparr>cur = db, saved = None\<rparr>))"

text \<open>A data statement run on the connection.\<close>

definition run :: "(tables \<Rightarrow> error + ('a \<times> tables)) \<Rightarrow> conn \<Rightarrow> (error + 'a) \<times> conn" where
  "run stmt c =
     (case stmt (cur c) of
        Inl err \<Rightarrow> (Inl err, c)
      | Inr (a, db') \<Rightarrow> (Inr a, c\<lparr>cur := db'\<rparr>))"

text \<open>
  A promise is pending (\<open>None\<close>) or settled; \<open>resolve\<close> and \<open>reject\<close> on a settled
  promise do nothing.
\<close>

definition settle :: "'r option \<Rightarrow> 'r \<Rightarrow> 'r option" where
  "settle p r = (case p of None \<Rightarrow> Some r | Some x \<Rightarrow> Some x)"

subsection \<open>createUserWithSettings\<close>

record default_settings =
  ds_default_currency :: "string js_opt"
  ds_theme :: "string js_opt"

text \<open>
  Inside \<open>db.serialize\<close> the BEGIN and the user INSERT are both queued before either
  callback runs: the \<open>return reject(err)\<close> of the BEGIN callback leaves that callback
  only, and the INSERT runs whatever BEGIN reported. Each later statement is issued
  from the callback of the one before. The result is the state of the promise and the
  connection once the chain has ended.
\<close>

definition createUserWithSettings ::
  "schema \<Rightarrow> string \<Rightarrow> string \<Rightarrow> string \<Rightarrow> string \<Rightarrow> default_settings \<Rightarrow> conn \<Rightarrow>
   (error + nat) option \<times> conn" where
  "createUserWithSettings sch now un em passwordHash defaultSettings c0 =
     (let (beginErr, c1) = sql_begin c0;
          p1 = (case beginErr of Some err \<Rightarrow> settle None (Inl err) | None \<Rightarrow> None)
      in case run (insert_user sch un em passwordHash now now) c1 of
           (Inl userErr, c2) \<Rightarrow>
             (let (_, c3) = sql_rollback c2 in (settle p1 (Inl userErr), c3))
         | (Inr userId, c2) \<Rightarrow>
             (case run (insert_settings userId
                          (js_or (ds_default_currency defaultSettings) ''USD'')
                          (js_or (ds_theme defaultSettings) ''light'') now now) c2 of
                (Inl settingsErr, c3) \<Rightarrow>
                  (let (_, c4) = sql_rollback c3 in (settle p1 (Inl settingsErr), c4))
              | (Inr _, c3) \<Rightarrow>
                  (case sql_commit c3 of
                     (Some commitErr, c4) \<Rightarrow>
                       (let (_, c5) = sql_rollback c4 in (settle p1 (Inl commitErr), c5))
                   | (None, c4) \<Rightarrow> (settle p1 (Inr userId), c4))))"

section \<open>Sequences of trade operations\<close>

text \<open>The operations of the trade repository that write to the store.\<close>

datatype trade_op =
    CreateTrade string trade_data
  | CloseTrade string close_data
  | UpdateTradeDetails string nat "string js_opt" "real js_opt"
  | DeleteTrade nat

fun apply_op :: "trade_op \<Rightarrow> tables \<Rightarrow> tables" where
  "apply_op (CreateTrade now tradeData) db = snd (createTrade now tradeData db)"
| "apply_op (CloseTrade now closeData) db = snd (closeTrade now closeData db)"
| "apply_op (UpdateTradeDetails now tid n c) db = snd (updateTradeDetails now tid n c db)"
| "apply_op (DeleteTrade tid) db = snd (deleteTrade tid db)"

definition apply_ops :: "trade_op list \<Rightarrow> tables \<Rightarrow> tables" where
  "apply_ops ops db = fold apply_op ops db"

definition trade_status :: "nat \<Rightarrow> tables \<Rightarrow> status option" where
  "trade_status tid db = map_option status (findTradeById tid db)"

text \<open>
  What the store guarantees of the \<open>trades\<close> table: \<open>id\<close> is a key, and no row has a
  rowid beyond the recorded sequence value.
\<close>

definition trades_ok :: "tables \<Rightarrow> bool" where
  "trades_ok db \<longleftrightarrow>
     distinct (map t_id (trades db)) \<and> (\<forall>r \<in> set (trades db). t_id r \<le> trades_seq db)"

section \<open>Sample data\<close>

text \<open>A user with one sub-account and one open trade, as the test suites set up.\<close>

definition sample_user :: user where
  "sample_user =
     \<lparr>u_id = 1, username = ''tradeUser'', email = ''trade@example.com'',
      password_hash = ''hashed_password'', u_created_at = ''2025-01-01T00:00:00.000Z'',
      u_updated_at = ''2025-01-01T00:00:00.000Z''\<rparr>"

definition sample_sub_account :: sub_account where
  "sample_sub_account =
     \<lparr>sa_id = 1, sa_user_id = 1, sa_name = ''Trade Test SubAcc'',
      sa_description = Some ''Sub account for trade tests'', sa_broker = None,
      sa_created_at = ''2025-01-01T00:00:00.000Z'',
      sa_updated_at = ''2025-01-01T00:00:00.000Z''\<rparr>"

definition sample_trade :: trade where
  "sample_trade =
     \<lparr>t_id = 1, t_user_id = 1, sub_account_id = Some 1, ticker = ''TST'', quantity = 10,
      entry_price = 100, exit_price = None, direction = Long, status = Open,
      entry_date = ''2025-01-02T00:00:00.000Z'', exit_date = None,
      t_notes = Some ''Initial trade notes'', commission = Some 2,
      t_created_at = ''2025-01-02T00:00:00.000Z'',
      t_updated_at = ''2025-01-02T00:00:00.000Z''\<rparr>"

definition sample_tables :: tables where
  "sample_tables =
     \<lparr>users = [sample_user], user_settings = [], sub_accounts = [sample_sub_account],
      trades = [sample_trade], users_seq = 1, sub_accounts_seq = 1, trades_seq = 1\<rparr>"

definition sample_close :: close_data where
  "sample_close =
     \<lparr>cd_id = 1, cd_exitPrice = 115, cd_exitDate = ''2025-01-03T00:00:00.000Z'',
      cd_notes = JSUndefined, cd_commission = JSUndefined\<rparr>"

definition sample_trade_data :: trade_data where
  "sample_trade_data =
     \<lparr>td_userId = 1, td_subAccountId = JSVal 1, td_ticker = ''TST'', td_quantity = 10,
      td_entryPrice = 100, td_direction = ''long'',
      td_entryDate = ''2025-01-02T00:00:00.000Z'', td_exitDate = JSUndefined,
      td_exitPrice = JSUndefined, td_notes = JSVal ''Initial trade notes'',
      td_commission = JSVal 2, td_status = JSUndefined\<rparr>"

text \<open>The sample store after its trade has been closed.\<close>

definition sample_closed_tables :: tables where
  "sample_closed_tables = snd (closeTrade ''2025-01-03T00:00:01.000Z'' sample_close sample_tables)"

definition sample_ops :: "trade_op list" where
  "sample_ops =
     [UpdateTradeDetails ''2025-01-04T00:00:00.000Z'' 1 (JSVal ''Updated notes'') JSUndefined,
      CloseTrade ''2025-01-05T00:00:00.000Z'' sample_close,
      CreateTrade ''2025-01-06T00:00:00.000Z'' sample_trade_data,
      DeleteTrade 2]"

text \<open>
  An empty store on an idle connection, and the same connection after a BEGIN that has
  not yet been committed (a transaction of another caller of the shared handle).
\<close>

definition idle_conn :: conn where
  "idle_conn = \<lparr>cur = empty_tables, saved = None\<rparr>"

definition busy_conn :: conn where
  "busy_conn = snd (sql_begin idle_conn)"

definition sample_settings :: default_settings where
  "sample_settings = \<lparr>ds_default_currency = JSVal ''EUR'', ds_theme = JSVal ''dark''\<rparr>"

definition empty_currency_settings :: default_settings where
  "empty_currency_settings = \<lparr>ds_default_currency = JSVal [], ds_theme = JSVal ''dark''\<rparr>"








section \<open>Facts about the statements\<close>

lemma find_update_rows:
  assumes "\<And>r. t_id (f r) = t_id r"
  shows "find (\<lambda>r. t_id r = j) (map (\<lambda>r. if p r then f r else r) rows)
         = map_option (\<lambda>r. if p r then f r else r) (find (\<lambda>r. t_id r = j) rows)"
  using assms by (induction rows) auto

lemma affected_le_one:
  "distinct (map t_id rows) \<Longrightarrow> length (filter (\<lambda>r. t_id r = j \<and> q r) rows) \<le> 1"
proof (induction rows)
  case Nil
  then show ?case by simp
next
  case (Cons r rows)
  have "t_id r = j \<Longrightarrow> filter (\<lambda>r. t_id r = j \<and> q r) rows = []"
    using Cons.prems by (force simp: filter_empty_conv image_iff)
  with Cons show ?case by auto
qed

lemma find_by_id_guard:
  "distinct (map t_id rows) \<Longrightarrow> find (\<lambda>r. t_id r = j) rows = Some r \<Longrightarrow>
   length (filter (\<lambda>r. t_id r = j \<and> q r) rows) = (if q r then 1 else 0)"
proof (induction rows)
  case Nil
  then show ?case by simp
next
  case (Cons a rows)
  show ?case
  proof (cases "t_id a = j")
    case True
    then have "filter (\<lambda>r. t_id r = j \<and> q r) rows = []"
      using Cons.prems(1) by (force simp: filter_empty_conv image_iff)
    with True Cons.prems(2) show ?thesis by simp
  next
    case False
    with Cons show ?thesis by simp
  qed
qed

lemma find_by_id_none:
  "find (\<lambda>r. t_id r = j) rows = None \<Longrightarrow> filter (\<lambda>r. t_id r = j \<and> q r) rows = []"
  by (auto simp: find_None_iff filter_empty_conv)

lemma update_no_match:
  "filter p rows = [] \<Longrightarrow> map (\<lambda>r. if p r then f r else r) rows = rows"
  by (induction rows) (auto split: if_splits)

section \<open>closeTrade\<close>

lemma closeTrade_result:
  "closeTrade now closeData db =
     (Inr (0 < length (filter (\<lambda>r. t_id r = cd_id closeData \<and> status r = Open) (trades db))),
      db\<lparr>trades := map (\<lambda>r. if t_id r = cd_id closeData \<and> status r = Open
                               then close_set now closeData r else r) (trades db)\<rparr>)"
  by (simp add: closeTrade_def run_close_update_def sql_update_def)

lemma close_set_id [simp]: "t_id (close_set now closeData r) = t_id r"
  by (simp add: close_set_def)

text \<open>
  Claim C2. On a table whose \<open>id\<close> column is a key, \<open>closeTrade\<close> never reports an error
  and returns \<open>true\<close> exactly when one row was rewritten. When no trade has the id, or
  the trade with the id is closed, it returns \<open>false\<close> and the store is as before. When
  the trade with the id is open, it returns \<open>true\<close> and the trade afterwards holds the
  given exit price and exit date, status \<open>closed\<close>, and the operation time as
  \<open>updated_at\<close>.
\<close>

theorem closeTrade_guarded_update:
  assumes pk: "distinct (map t_id (trades db))"
  shows "(\<exists>b db'. closeTrade now closeData db = (Inr b, db')
            \<and> (b \<longleftrightarrow> length (filter (\<lambda>r. t_id r = cd_id closeData \<and> status r = Open)
                                  (trades db)) = 1))
       \<and> (findTradeById (cd_id closeData) db = None
            \<longrightarrow> closeTrade now closeData db = (Inr False, db))
       \<and> (\<forall>r. findTradeById (cd_id closeData) db = Some r \<and> status r = Closed
            \<longrightarrow> closeTrade now closeData db = (Inr False, db))
       \<and> (\<forall>r. findTradeById (cd_id closeData) db = Some r \<and> status r = Open
            \<longrightarrow> fst (closeTrade now closeData db) = Inr True
              \<and> (\<exists>r'. findTradeById (cd_id closeData) (snd (closeTrade now closeData db)) = Some r'
                    \<and> exit_price r' = Some (cd_exitPrice closeData)
                    \<and> exit_date r' = Some (cd_exitDate closeData)
                    \<and> status r' = Closed
                    \<and> t_updated_at r' = now))"
proof -
  let ?p = "\<lambda>r. t_id r = cd_id closeData \<and> status r = Open"
  have one: "(0 < length (filter ?p (trades db))) = (length (filter ?p (trades db)) = 1)"
    using affected_le_one [OF pk, of "cd_id closeData" "\<lambda>r. status r = Open"] by arith
  have a: "\<exists>b db'. closeTrade now closeData db = (Inr b, db')
            \<and> (b \<longleftrightarrow> length (filter ?p (trades db)) = 1)"
    using one by (simp add: closeTrade_result)
  have b: "findTradeById (cd_id closeData) db = None
            \<longrightarrow> closeTrade now closeData db = (Inr False, db)"
  proof
    assume "findTradeById (cd_id closeData) db = None"
    then have "filter ?p (trades db) = []"
      by (simp add: findTradeById_def find_by_id_none)
    then show "closeTrade now closeData db = (Inr False, db)"
      by (simp add: closeTrade_result update_no_match)
  qed
  have c: "\<forall>r. findTradeById (cd_id closeData) db = Some r \<and> status r = Closed
            \<longrightarrow> closeTrade now closeData db = (Inr False, db)"
  proof (intro allI impI)
    fix r assume h: "findTradeById (cd_id closeData) db = Some r \<and> status r = Closed"
    then have "length (filter ?p (trades db)) = 0"
      using find_by_id_guard [OF pk, of "cd_id closeData" r "\<lambda>r. status r = Open"]
      by (simp add: findTradeById_def)
    then have "filter ?p (trades db) = []" by simp
    then show "closeTrade now closeData db = (Inr False, db)"
      by (simp add: closeTrade_result update_no_match)
  qed
  have d: "\<forall>r. findTradeById (cd_id closeData) db = Some r \<and> status r = Open
            \<longrightarrow> fst (closeTrade now closeData db) = Inr True
              \<and> (\<exists>r'. findTradeById (cd_id closeData) (snd (closeTrade now closeData db)) = Some r'
                    \<and> exit_price r' = Some (cd_exitPrice closeData)
                    \<and> exit_date r' = Some (cd_exitDate closeData)
                    \<and> status r' = Closed
                    \<and> t_updated_at r' = now)"
  proof (intro allI impI)
    fix r assume h: "findTradeById (cd_id closeData) db = Some r \<and> status r = Open"
    then have n: "length (filter ?p (trades db)) = 1"
      using find_by_id_guard [OF pk, of "cd_id closeData" r "\<lambda>r. status r = Open"]
      by (simp add: findTradeById_def)
    have "t_id r = cd_id closeData"
      using h by (auto simp: findTradeById_def dest: find_Some_iff [THEN iffD1])
    then have "findTradeById (cd_id closeData) (snd (closeTrade now closeData db))
                 = Some (close_set now closeData r)"
      using h by (simp add: closeTrade_result findTradeById_def find_update_rows)
    then show "fst (closeTrade now closeData db) = Inr True
              \<and> (\<exists>r'. findTradeById (cd_id closeData) (snd (closeTrade now closeData db)) = Some r'
                    \<and> exit_price r' = Some (cd_exitPrice closeData)
                    \<and> exit_date r' = Some (cd_exitDate closeData)
                    \<and> status r' = Closed
                    \<and> t_updated_at r' = now)"
      using n by (simp add: closeTrade_result close_set_def)
  qed
  from a b c d show ?thesis by blast
qed

lemma sample_tables_pk: "distinct (map t_id (trades sample_tables))"
  by (simp add: sample_tables_def)

lemma sample_find: "findTradeById (cd_id sample_close) sample_tables = Some sample_trade"
  by (simp add: findTradeById_def sample_tables_def sample_trade_def sample_close_def)

theorem closeTrade_guarded_update_witness:
  "distinct (map t_id (trades sample_tables))
   \<and> findTradeById (cd_id sample_close) sample_tables = Some sample_trade
   \<and> status sample_trade = Open
   \<and> fst (closeTrade ''2025-01-03T00:00:01.000Z'' sample_close sample_tables) = Inr True
   \<and> (\<exists>r'. findTradeById (cd_id sample_close)
              (snd (closeTrade ''2025-01-03T00:00:01.000Z'' sample_close sample_tables)) = Some r'
          \<and> exit_price r' = Some 115
          \<and> exit_date r' = Some ''2025-01-03T00:00:00.000Z''
          \<and> status r' = Closed
          \<and> t_updated_at r' = ''2025-01-03T00:00:01.000Z'')"
proof -
  note f = sample_find
  have o: "status sample_trade = Open"
    by (simp add: sample_trade_def)
  have x: "cd_exitPrice sample_close = 115"
          "cd_exitDate sample_close = ''2025-01-03T00:00:00.000Z''"
    by (simp_all add: sample_close_def)
  show ?thesis
    using closeTrade_guarded_update [OF sample_tables_pk,
            of "''2025-01-03T00:00:01.000Z''" sample_close] f o x sample_tables_pk
    by auto
qed

lemma close_row_frame:
  fixes r :: trade and closeData :: close_data and now :: string
  defines "r' \<equiv> (if t_id r = cd_id closeData \<and> status r = Open
                   then close_set now closeData r else r)"
  shows "t_id r' = t_id r \<and> t_user_id r' = t_user_id r
       \<and> sub_account_id r' = sub_account_id r \<and> ticker r' = ticker r
       \<and> quantity r' = quantity r \<and> entry_price r' = entry_price r
       \<and> direction r' = direction r \<and> entry_date r' = entry_date r
       \<and> t_created_at r' = t_created_at r"
    and "cd_notes closeData = JSUndefined \<longrightarrow> t_notes r' = t_notes r"
    and "cd_commission closeData = JSUndefined \<longrightarrow> commission r' = commission r"
    and "t_notes r' \<noteq> t_notes r \<longrightarrow> (\<exists>v. cd_notes closeData = JSVal v \<and> t_notes r' = Some v)"
    and "commission r' \<noteq> commission r
           \<longrightarrow> (\<exists>v. cd_commission closeData = JSVal v \<and> commission r' = Some v)"
    and "\<forall>v. cd_notes closeData = JSVal v \<and> t_id r = cd_id closeData \<and> status r = Open
           \<longrightarrow> t_notes r' = Some v"
    and "\<forall>v. cd_commission closeData = JSVal v \<and> t_id r = cd_id closeData \<and> status r = Open
           \<longrightarrow> commission r' = Some v"
    and "t_id r \<noteq> cd_id closeData \<or> status r \<noteq> Open \<longrightarrow> r' = r"
proof -
  show "t_id r' = t_id r \<and> t_user_id r' = t_user_id r
       \<and> sub_account_id r' = sub_account_id r \<and> ticker r' = ticker r
       \<and> quantity r' = quantity r \<and> entry_price r' = entry_price r
       \<and> direction r' = direction r \<and> entry_date r' = entry_date r
       \<and> t_created_at r' = t_created_at r"
    by (simp add: r'_def close_set_def)
  show "cd_notes closeData = JSUndefined \<longrightarrow> t_notes r' = t_notes r"
    by (simp add: r'_def close_set_def)
  show "cd_commission closeData = JSUndefined \<longrightarrow> commission r' = commission r"
    by (simp add: r'_def close_set_def)
  show "t_notes r' \<noteq> t_notes r \<longrightarrow> (\<exists>v. cd_notes closeData = JSVal v \<and> t_notes r' = Some v)"
    by (cases "cd_notes closeData") (simp_all add: r'_def close_set_def)
  show "commission r' \<noteq> commission r
           \<longrightarrow> (\<exists>v. cd_commission closeData = JSVal v \<and> commission r' = Some v)"
    by (cases "cd_commission closeData") (simp_all add: r'_def close_set_def)
  show "\<forall>v. cd_notes closeData = JSVal v \<and> t_id r = cd_id closeData \<and> status r = Open
           \<longrightarrow> t_notes r' = Some v"
    by (simp add: r'_def close_set_def)
  show "\<forall>v. cd_commission closeData = JSVal v \<and> t_id r = cd_id closeData \<and> status r = Open
           \<longrightarrow> commission r' = Some v"
    by (simp add: r'_def close_set_def)
  show "t_id r \<noteq> cd_id closeData \<or> status r \<noteq> Open \<longrightarrow> r' = r"
    by (auto simp: r'_def)
qed

text \<open>
  Claim C3. \<open>closeTrade\<close> touches no table but \<open>trades\<close> and keeps every row in place.
  Of any row it leaves \<open>id\<close>, \<open>user_id\<close>, \<open>sub_account_id\<close>, \<open>ticker\<close>, \<open>quantity\<close>,
  \<open>entry_price\<close>, \<open>direction\<close>, \<open>entry_date\<close> and \<open>created_at\<close> as they were. When \<open>notes\<close>
  (or \<open>commission\<close>) is omitted the stored value is kept; the stored value changes only
  when the caller supplied a value, and then to that value; the row being closed takes
  a supplied value. A row that is not the open trade with the given id is unchanged.
\<close>

theorem closeTrade_coalesce_frame:
  assumes run: "closeTrade now closeData db = (res, db')"
  shows "users db' = users db \<and> user_settings db' = user_settings db
       \<and> sub_accounts db' = sub_accounts db \<and> users_seq db' = users_seq db
       \<and> sub_accounts_seq db' = sub_accounts_seq db \<and> trades_seq db' = trades_seq db
       \<and> length (trades db') = length (trades db)
       \<and> (\<forall>i < length (trades db).
            t_id (trades db' ! i) = t_id (trades db ! i)
          \<and> t_user_id (trades db' ! i) = t_user_id (trades db ! i)
          \<and> sub_account_id (trades db' ! i) = sub_account_id (trades db ! i)
          \<and> ticker (trades db' ! i) = ticker (trades db ! i)
          \<and> quantity (trades db' ! i) = quantity (trades db ! i)
          \<and> entry_price (trades db' ! i) = entry_price (trades db ! i)
          \<and> direction (trades db' ! i) = direction (trades db ! i)
          \<and> entry_date (trades db' ! i) = entry_date (trades db ! i)
          \<and> t_created_at (trades db' ! i) = t_created_at (trades db ! i)
          \<and> (cd_notes closeData = JSUndefined
                \<longrightarrow> t_notes (trades db' ! i) = t_notes (trades db ! i))
          \<and> (cd_commission closeData = JSUndefined
                \<longrightarrow> commission (trades db' ! i) = commission (trades db ! i))
          \<and> (t_notes (trades db' ! i) \<noteq> t_notes (trades db ! i)
                \<longrightarrow> (\<exists>v. cd_notes closeData = JSVal v \<and> t_notes (trades db' ! i) = Some v))
          \<and> (commission (trades db' ! i) \<noteq> commission (trades db ! i)
                \<longrightarrow> (\<exists>v. cd_commission closeData = JSVal v
                         \<and> commission (trades db' ! i) = Some v))
          \<and> (\<forall>v. cd_notes closeData = JSVal v \<and> t_id (trades db ! i) = cd_id closeData
                   \<and> status (trades db ! i) = Open
                \<longrightarrow> t_notes (trades db' ! i) = Some v)
          \<and> (\<forall>v. cd_commission closeData = JSVal v \<and> t_id (trades db ! i) = cd_id closeData
                   \<and> status (trades db ! i) = Open
                \<longrightarrow> commission (trades db' ! i) = Some v)
          \<and> (t_id (trades db ! i) \<noteq> cd_id closeData \<or> status (trades db ! i) \<noteq> Open
                \<longrightarrow> trades db' ! i = trades db ! i))"
    (is "_ \<and> _ \<and> _ \<and> _ \<and> _ \<and> _ \<and> _ \<and> (\<forall>i. _ \<longrightarrow> ?row i)")
proof -
  let ?g = "\<lambda>r. if t_id r = cd_id closeData \<and> status r = Open
                 then close_set now closeData r else r"
  have db': "db' = db\<lparr>trades := map ?g (trades db)\<rparr>"
    using run by (simp add: closeTrade_result)
  have other: "users db' = users db \<and> user_settings db' = user_settings db
       \<and> sub_accounts db' = sub_accounts db \<and> users_seq db' = users_seq db
       \<and> sub_accounts_seq db' = sub_accounts_seq db \<and> trades_seq db' = trades_seq db
       \<and> length (trades db') = length (trades db)"
    by (simp add: db')
  have "?row i" if i: "i < length (trades db)" for i
  proof -
    have row: "trades db' ! i = ?g (trades db ! i)"
      using i by (simp add: db')
    show ?thesis
      unfolding row
      using close_row_frame [where closeData = closeData and now = now and r = "trades db ! i"]
      by blast
  qed
  with other show ?thesis by blast
qed

lemma sample_close_run:
  "closeTrade ''2025-01-03T00:00:01.000Z'' sample_close sample_tables
     = (Inr True, snd (closeTrade ''2025-01-03T00:00:01.000Z'' sample_close sample_tables))"
  by (simp add: closeTrade_result sample_close_def sample_tables_def sample_trade_def)

lemma sample_close_notes_run:
  "closeTrade ''2025-01-03T00:00:01.000Z''
       (sample_close\<lparr>cd_notes := JSVal ''Closed successfully''\<rparr>) sample_tables
     = (Inr True,
        snd (closeTrade ''2025-01-03T00:00:01.000Z''
               (sample_close\<lparr>cd_notes := JSVal ''Closed successfully''\<rparr>) sample_tables))"
  by (simp add: closeTrade_result sample_close_def sample_tables_def sample_trade_def)

theorem closeTrade_coalesce_frame_witness:
  "closeTrade ''2025-01-03T00:00:01.000Z'' sample_close sample_tables
     = (Inr True, snd (closeTrade ''2025-01-03T00:00:01.000Z'' sample_close sample_tables))
   \<and> 0 < length (trades sample_tables)
   \<and> cd_notes sample_close = JSUndefined
   \<and> cd_commission sample_close = JSUndefined
   \<and> t_notes (trades (snd (closeTrade ''2025-01-03T00:00:01.000Z'' sample_close
                              sample_tables)) ! 0) = Some ''Initial trade notes''
   \<and> commission (trades (snd (closeTrade ''2025-01-03T00:00:01.000Z'' sample_close
                                 sample_tables)) ! 0) = Some 2
   \<and> ticker (trades (snd (closeTrade ''2025-01-03T00:00:01.000Z'' sample_close
                             sample_tables)) ! 0) = ''TST''
   \<and> t_notes (trades (snd (closeTrade ''2025-01-03T00:00:01.000Z''
                              (sample_close\<lparr>cd_notes := JSVal ''Closed successfully''\<rparr>)
                              sample_tables)) ! 0) = Some ''Closed successfully''"
proof -
  have n: "0 < length (trades sample_tables)"
    by (simp add: sample_tables_def)
  have u: "cd_notes sample_close = JSUndefined" "cd_commission sample_close = JSUndefined"
    by (simp_all add: sample_close_def)
  have v: "cd_notes (sample_close\<lparr>cd_notes := JSVal ''Closed successfully''\<rparr>)
             = JSVal ''Closed successfully''"
          "t_id (trades sample_tables ! 0)
             = cd_id (sample_close\<lparr>cd_notes := JSVal ''Closed successfully''\<rparr>)"
          "status (trades sample_tables ! 0) = Open"
    by (simp_all add: sample_close_def sample_tables_def sample_trade_def)
  have old: "t_notes (trades sample_tables ! 0) = Some ''Initial trade notes''"
            "commission (trades sample_tables ! 0) = Some 2"
            "ticker (trades sample_tables ! 0) = ''TST''"
    by (simp_all add: sample_tables_def sample_trade_def)
  note kept =
    closeTrade_coalesce_frame [OF sample_close_run, THEN conjunct2, THEN conjunct2,
      THEN conjunct2, THEN conjunct2, THEN conjunct2, THEN conjunct2, THEN conjunct2,
      rule_format, OF n]
  note written =
    closeTrade_coalesce_frame [OF sample_close_notes_run, THEN conjunct2, THEN conjunct2,
      THEN conjunct2, THEN conjunct2, THEN conjunct2, THEN conjunct2, THEN conjunct2,
      rule_format, OF n]
  have a: "t_notes (trades (snd (closeTrade ''2025-01-03T00:00:01.000Z'' sample_close
                                   sample_tables)) ! 0) = Some ''Initial trade notes''"
    using kept u old by simp
  have b: "commission (trades (snd (closeTrade ''2025-01-03T00:00:01.000Z'' sample_close
                                     sample_tables)) ! 0) = Some 2"
    using kept u old by simp
  have c: "ticker (trades (snd (closeTrade ''2025-01-03T00:00:01.000Z'' sample_close
                                  sample_tables)) ! 0) = ''TST''"
    using kept old by simp
  have d: "t_notes (trades (snd (closeTrade ''2025-01-03T00:00:01.000Z''
                              (sample_close\<lparr>cd_notes := JSVal ''Closed successfully''\<rparr>)
                              sample_tables)) ! 0) = Some ''Closed successfully''"
    using written v by simp
  from sample_close_run n u a b c d show ?thesis by simp
qed

section \<open>updateTradeDetails\<close>

lemma set_clause_fields:
  "fold apply_assignment (fields_to_update now n c) r =
     r\<lparr>t_updated_at := now,
       t_notes := (if n = JSUndefined then t_notes r else bind n),
       commission := (if c = JSUndefined then commission r else bind c)\<rparr>"
  by (cases n; cases c) (simp_all add: fields_to_update_def)

lemma updateTradeDetails_result:
  "updateTradeDetails now tid n c db =
     (if n = JSUndefined \<and> c = JSUndefined then (Inr False, db)
      else (Inr (0 < length (filter (\<lambda>r. t_id r = tid) (trades db))),
            db\<lparr>trades := map (\<lambda>r. if t_id r = tid
                                     then fold apply_assignment (fields_to_update now n c) r
                                     else r) (trades db)\<rparr>))"
  by (simp add: updateTradeDetails_def run_details_update_def sql_update_def)

lemma details_row_frame:
  fixes r :: trade and n :: "string js_opt" and c :: "real js_opt" and now :: string
    and tid :: nat
  defines "r' \<equiv> (if n = JSUndefined \<and> c = JSUndefined then r
                   else if t_id r = tid
                   then fold apply_assignment (fields_to_update now n c) r else r)"
  shows "t_id r' = t_id r \<and> t_user_id r' = t_user_id r
       \<and> sub_account_id r' = sub_account_id r \<and> ticker r' = ticker r
       \<and> quantity r' = quantity r \<and> entry_price r' = entry_price r
       \<and> exit_price r' = exit_price r \<and> direction r' = direction r
       \<and> status r' = status r \<and> entry_date r' = entry_date r
       \<and> exit_date r' = exit_date r \<and> t_created_at r' = t_created_at r"
    and "n = JSUndefined \<longrightarrow> t_notes r' = t_notes r"
    and "c = JSUndefined \<longrightarrow> commission r' = commission r"
    and "n \<noteq> JSUndefined \<and> t_id r = tid \<longrightarrow> t_notes r' = bind n"
    and "c \<noteq> JSUndefined \<and> t_id r = tid \<longrightarrow> commission r' = bind c"
    and "(n \<noteq> JSUndefined \<or> c \<noteq> JSUndefined) \<and> t_id r = tid \<longrightarrow> t_updated_at r' = now"
    and "t_id r \<noteq> tid \<longrightarrow> r' = r"
  by (simp_all add: r'_def set_clause_fields)

lemma find_none_no_rows:
  "find (\<lambda>r. t_id r = j) rows = None \<Longrightarrow> filter (\<lambda>r. t_id r = j) rows = []"
  by (auto simp: find_None_iff filter_empty_conv)

lemma find_some_rows:
  "find (\<lambda>r. t_id r = j) rows = Some r \<Longrightarrow> 0 < length (filter (\<lambda>r. t_id r = j) rows)"
  by (induction rows) (auto split: if_splits)

text \<open>
  Claim C6. With neither field supplied \<open>updateTradeDetails\<close> returns \<open>false\<close> and the
  store is as before. It returns \<open>false\<close>, the store as before, when no trade has the
  id, and \<open>true\<close> when a field is supplied and a trade has the id. It touches no table
  but \<open>trades\<close>, keeps every row in place, and changes no column but \<open>notes\<close>,
  \<open>commission\<close> and \<open>updated_at\<close>: an omitted field keeps its stored value, a supplied
  field is written to the trade with the id, \<open>updated_at\<close> of that trade becomes the
  operation time when a field is supplied, and rows with another id are unchanged.
\<close>

theorem updateTradeDetails_partial_merge:
  assumes run: "updateTradeDetails now tid n c db = (res, db')"
  shows "(n = JSUndefined \<and> c = JSUndefined \<longrightarrow> res = Inr False \<and> db' = db)
       \<and> (findTradeById tid db = None \<longrightarrow> res = Inr False \<and> db' = db)
       \<and> ((n \<noteq> JSUndefined \<or> c \<noteq> JSUndefined) \<and> findTradeById tid db \<noteq> None
            \<longrightarrow> res = Inr True)
       \<and> users db' = users db \<and> user_settings db' = user_settings db
       \<and> sub_accounts db' = sub_accounts db \<and> users_seq db' = users_seq db
       \<and> sub_accounts_seq db' = sub_accounts_seq db \<and> trades_seq db' = trades_seq db
       \<and> length (trades db') = length (trades db)
       \<and> (\<forall>i < length (trades db).
            t_id (trades db' ! i) = t_id (trades db ! i)
          \<and> t_user_id (trades db' ! i) = t_user_id (trades db ! i)
          \<and> sub_account_id (trades db' ! i) = sub_account_id (trades db ! i)
          \<and> ticker (trades db' ! i) = ticker (trades db ! i)
          \<and> quantity (trades db' ! i) = quantity (trades db ! i)
          \<and> entry_price (trades db' ! i) = entry_price (trades db ! i)
          \<and> exit_price (trades db' ! i) = exit_price (trades db ! i)
          \<and> direction (trades db' ! i) = direction (trades db ! i)
          \<and> status (trades db' ! i) = status (trades db ! i)
          \<and> entry_date (trades db' ! i) = entry_date (trades db ! i)
          \<and> exit_date (trades db' ! i) = exit_date (trades db ! i)
          \<and> t_created_at (trades db' ! i) = t_created_at (trades db ! i)
          \<and> (n = JSUndefined \<longrightarrow> t_notes (trades db' ! i) = t_notes (trades db ! i))
          \<and> (c = JSUndefined \<longrightarrow> commission (trades db' ! i) = commission (trades db ! i))
          \<and> (n \<noteq> JSUndefined \<and> t_id (trades db ! i) = tid
                \<longrightarrow> t_notes (trades db' ! i) = bind n)
          \<and> (c \<noteq> JSUndefined \<and> t_id (trades db ! i) = tid
                \<longrightarrow> commission (trades db' ! i) = bind c)
          \<and> ((n \<noteq> JSUndefined \<or> c \<noteq> JSUndefined) \<and> t_id (trades db ! i) = tid
                \<longrightarrow> t_updated_at (trades db' ! i) = now)
          \<and> (t_id (trades db ! i) \<noteq> tid \<longrightarrow> trades db' ! i = trades db ! i))"
    (is "_ \<and> _ \<and> _ \<and> _ \<and> _ \<and> _ \<and> _ \<and> _ \<and> _ \<and> _ \<and> (\<forall>i. _ \<longrightarrow> ?row i)")
proof -
  let ?g = "\<lambda>r. if n = JSUndefined \<and> c = JSUndefined then r
                 else if t_id r = tid
                 then fold apply_assignment (fields_to_update now n c) r else r"
  have db': "db' = db\<lparr>trades := map ?g (trades db)\<rparr>"
  proof (cases "n = JSUndefined \<and> c = JSUndefined")
    case True
    then show ?thesis using run by (simp add: updateTradeDetails_result)
  next
    case False
    then have "?g = (\<lambda>r. if t_id r = tid
                          then fold apply_assignment (fields_to_update now n c) r else r)"
      by auto
    then show ?thesis using run False by (auto simp: updateTradeDetails_result)
  qed
  have a: "n = JSUndefined \<and> c = JSUndefined \<longrightarrow> res = Inr False \<and> db' = db"
    using run by (auto simp: updateTradeDetails_result)
  have b: "findTradeById tid db = None \<longrightarrow> res = Inr False \<and> db' = db"
  proof
    assume "findTradeById tid db = None"
    then have "filter (\<lambda>r. t_id r = tid) (trades db) = []"
      by (simp add: findTradeById_def find_none_no_rows)
    then show "res = Inr False \<and> db' = db"
      using run by (auto simp: updateTradeDetails_result update_no_match split: if_splits)
  qed
  have c: "(n \<noteq> JSUndefined \<or> c \<noteq> JSUndefined) \<and> findTradeById tid db \<noteq> None
            \<longrightarrow> res = Inr True"
    using run by (auto simp: updateTradeDetails_result findTradeById_def
                       dest: find_some_rows split: if_splits)
  have other: "users db' = users db \<and> user_settings db' = user_settings db
       \<and> sub_accounts db' = sub_accounts db \<and> users_seq db' = users_seq db
       \<and> sub_accounts_seq db' = sub_accounts_seq db \<and> trades_seq db' = trades_seq db
       \<and> length (trades db') = length (trades db)"
    by (simp add: db')
  have "?row i" if i: "i < length (trades db)" for i
  proof -
    have row: "trades db' ! i = ?g (trades db ! i)"
      using i by (simp add: db')
    show ?thesis
      unfolding row
      using details_row_frame [where n = n and c = c and now = now and tid = tid
                                 and r = "trades db ! i"]
      by blast
  qed
  with a b c other show ?thesis by blast
qed

lemma sample_update_notes_run:
  "updateTradeDetails ''2025-01-04T00:00:00.000Z'' 1 (JSVal ''Updated notes'') JSUndefined
       sample_tables
     = (Inr True,
        snd (updateTradeDetails ''2025-01-04T00:00:00.000Z'' 1 (JSVal ''Updated notes'')
               JSUndefined sample_tables))"
  by (simp add: updateTradeDetails_result sample_tables_def sample_trade_def)

lemma sample_update_nothing_run:
  "updateTradeDetails ''2025-01-04T00:00:00.000Z'' 1 JSUndefined JSUndefined sample_tables
     = (fst (updateTradeDetails ''2025-01-04T00:00:00.000Z'' 1 JSUndefined JSUndefined
               sample_tables),
        snd (updateTradeDetails ''2025-01-04T00:00:00.000Z'' 1 JSUndefined JSUndefined
               sample_tables))"
  by simp

lemma sample_update_missing_run:
  "updateTradeDetails ''2025-01-04T00:00:00.000Z'' 9999 (JSVal ''Updated notes'') JSUndefined
       sample_tables
     = (fst (updateTradeDetails ''2025-01-04T00:00:00.000Z'' 9999 (JSVal ''Updated notes'')
               JSUndefined sample_tables),
        snd (updateTradeDetails ''2025-01-04T00:00:00.000Z'' 9999 (JSVal ''Updated notes'')
               JSUndefined sample_tables))"
  by simp

theorem updateTradeDetails_partial_merge_witness:
  "0 < length (trades sample_tables)
   \<and> t_id (trades sample_tables ! 0) = 1
   \<and> findTradeById 9999 sample_tables = None
   \<and> updateTradeDetails ''2025-01-04T00:00:00.000Z'' 1 JSUndefined JSUndefined sample_tables
       = (Inr False, sample_tables)
   \<and> updateTradeDetails ''2025-01-04T00:00:00.000Z'' 9999 (JSVal ''Updated notes'')
         JSUndefined sample_tables
       = (Inr False, sample_tables)
   \<and> fst (updateTradeDetails ''2025-01-04T00:00:00.000Z'' 1 (JSVal ''Updated notes'')
            JSUndefined sample_tables) = Inr True
   \<and> t_notes (trades (snd (updateTradeDetails ''2025-01-04T00:00:00.000Z'' 1
                              (JSVal ''Updated notes'') JSUndefined sample_tables)) ! 0)
       = Some ''Updated notes''
   \<and> commission (trades (snd (updateTradeDetails ''2025-01-04T00:00:00.000Z'' 1
                                 (JSVal ''Updated notes'') JSUndefined sample_tables)) ! 0)
       = Some 2
   \<and> t_updated_at (trades (snd (updateTradeDetails ''2025-01-04T00:00:00.000Z'' 1
                                   (JSVal ''Updated notes'') JSUndefined sample_tables)) ! 0)
       = ''2025-01-04T00:00:00.000Z''"
proof -
  have n: "0 < length (trades sample_tables)" "t_id (trades sample_tables ! 0) = 1"
          "commission (trades sample_tables ! 0) = Some 2"
    by (simp_all add: sample_tables_def sample_trade_def)
  have m: "findTradeById 9999 sample_tables = None"
    by (simp add: findTradeById_def sample_tables_def sample_trade_def)
  have v: "JSVal ''Updated notes'' \<noteq> JSUndefined"
          "bind (JSVal ''Updated notes'') = Some ''Updated notes''"
    by simp_all
  note unsupplied =
    updateTradeDetails_partial_merge [OF sample_update_nothing_run, THEN conjunct1]
  note missing =
    updateTradeDetails_partial_merge [OF sample_update_missing_run, THEN conjunct2,
      THEN conjunct1, rule_format, OF m]
  note merged =
    updateTradeDetails_partial_merge [OF sample_update_notes_run, THEN conjunct2,
      THEN conjunct2, THEN conjunct2, THEN conjunct2, THEN conjunct2, THEN conjunct2,
      THEN conjunct2, THEN conjunct2, THEN conjunct2, THEN conjunct2,
      rule_format, OF n(1)]
  have a: "updateTradeDetails ''2025-01-04T00:00:00.000Z'' 1 JSUndefined JSUndefined
             sample_tables = (Inr False, sample_tables)"
    using unsupplied by (simp add: prod_eq_iff)
  have b: "updateTradeDetails ''2025-01-04T00:00:00.000Z'' 9999 (JSVal ''Updated notes'')
             JSUndefined sample_tables = (Inr False, sample_tables)"
    using missing by (simp add: prod_eq_iff)
  have c: "fst (updateTradeDetails ''2025-01-04T00:00:00.000Z'' 1 (JSVal ''Updated notes'')
                  JSUndefined sample_tables) = Inr True"
    using sample_update_notes_run by (simp add: prod_eq_iff)
  have d: "t_notes (trades (snd (updateTradeDetails ''2025-01-04T00:00:00.000Z'' 1
                              (JSVal ''Updated notes'') JSUndefined sample_tables)) ! 0)
             = Some ''Updated notes''"
    using merged n(2) v by simp
  have e: "commission (trades (snd (updateTradeDetails ''2025-01-04T00:00:00.000Z'' 1
                                 (JSVal ''Updated notes'') JSUndefined sample_tables)) ! 0)
             = Some 2"
    using merged n(3) by simp
  have f: "t_updated_at (trades (snd (updateTradeDetails ''2025-01-04T00:00:00.000Z'' 1
                                   (JSVal ''Updated notes'') JSUndefined sample_tables)) ! 0)
             = ''2025-01-04T00:00:00.000Z''"
    using merged n(2) v by simp
  from n(1,2) m a b c d e f show ?thesis by simp
qed

section \<open>null against undefined\<close>

lemma close_row_null:
  fixes r :: trade and closeData :: close_data and now :: string
  defines "r' \<equiv> (if t_id r = cd_id closeData \<and> status r = Open
                   then close_set now closeData r else r)"
  shows "cd_notes closeData = JSNull \<longrightarrow> t_notes r' = t_notes r"
    and "cd_commission closeData = JSNull \<longrightarrow> commission r' = commission r"
    and "t_notes r \<noteq> None \<longrightarrow> t_notes r' \<noteq> None"
    and "commission r \<noteq> None \<longrightarrow> commission r' \<noteq> None"
proof -
  show "cd_notes closeData = JSNull \<longrightarrow> t_notes r' = t_notes r"
    by (simp add: r'_def close_set_def)
  show "cd_commission closeData = JSNull \<longrightarrow> commission r' = commission r"
    by (simp add: r'_def close_set_def)
  show "t_notes r \<noteq> None \<longrightarrow> t_notes r' \<noteq> None"
    by (cases "cd_notes closeData") (auto simp: r'_def close_set_def)
  show "commission r \<noteq> None \<longrightarrow> commission r' \<noteq> None"
    by (cases "cd_commission closeData") (auto simp: r'_def close_set_def)
qed

lemma closeTrade_row:
  "i < length (trades db) \<Longrightarrow>
   trades (snd (closeTrade now closeData db)) ! i
     = (if t_id (trades db ! i) = cd_id closeData \<and> status (trades db ! i) = Open
        then close_set now closeData (trades db ! i) else trades db ! i)"
  by (simp add: closeTrade_result)

lemma updateTradeDetails_row:
  "i < length (trades db) \<Longrightarrow>
   trades (snd (updateTradeDetails now tid n c db)) ! i
     = (if n = JSUndefined \<and> c = JSUndefined then trades db ! i
        else if t_id (trades db ! i) = tid
        then fold apply_assignment (fields_to_update now n c) (trades db ! i)
        else trades db ! i)"
  by (simp add: updateTradeDetails_result)

text \<open>
  Claim C10. In \<open>closeTrade\<close> an explicit \<open>null\<close> for \<open>notes\<close> or \<open>commission\<close> acts as an
  omitted field: the call does what it does with the field \<open>undefined\<close>, the stored
  value is kept, and no call of \<open>closeTrade\<close> turns a stored \<open>notes\<close> or \<open>commission\<close>
  into NULL. In \<open>updateTradeDetails\<close> an explicit \<open>null\<close> stores NULL in the trade with
  the id, and an \<open>undefined\<close> field keeps the stored value.
\<close>

theorem null_preserved_by_closeTrade_stored_by_updateTradeDetails:
  "closeTrade now (closeData\<lparr>cd_notes := JSNull\<rparr>) db
     = closeTrade now (closeData\<lparr>cd_notes := JSUndefined\<rparr>) db
   \<and> closeTrade now (closeData\<lparr>cd_commission := JSNull\<rparr>) db
     = closeTrade now (closeData\<lparr>cd_commission := JSUndefined\<rparr>) db
   \<and> (\<forall>i < length (trades db).
        (cd_notes closeData = JSNull
           \<longrightarrow> t_notes (trades (snd (closeTrade now closeData db)) ! i)
               = t_notes (trades db ! i))
      \<and> (cd_commission closeData = JSNull
           \<longrightarrow> commission (trades (snd (closeTrade now closeData db)) ! i)
               = commission (trades db ! i))
      \<and> (t_notes (trades db ! i) \<noteq> None
           \<longrightarrow> t_notes (trades (snd (closeTrade now closeData db)) ! i) \<noteq> None)
      \<and> (commission (trades db ! i) \<noteq> None
           \<longrightarrow> commission (trades (snd (closeTrade now closeData db)) ! i) \<noteq> None)
      \<and> (t_id (trades db ! i) = tid
           \<longrightarrow> t_notes (trades (snd (updateTradeDetails now tid JSNull c db)) ! i) = None)
      \<and> (t_id (trades db ! i) = tid
           \<longrightarrow> commission (trades (snd (updateTradeDetails now tid n JSNull db)) ! i) = None)
      \<and> t_notes (trades (snd (updateTradeDetails now tid JSUndefined c db)) ! i)
          = t_notes (trades db ! i)
      \<and> commission (trades (snd (updateTradeDetails now tid n JSUndefined db)) ! i)
          = commission (trades db ! i))"
    (is "?a \<and> ?b \<and> (\<forall>i. _ \<longrightarrow> ?row i)")
proof -
  have a: ?a
    by (simp add: closeTrade_result close_set_def)
  have b: ?b
    by (simp add: closeTrade_result close_set_def)
  have "?row i" if i: "i < length (trades db)" for i
  proof -
    have u: "t_id (trades db ! i) = tid
               \<longrightarrow> t_notes (trades (snd (updateTradeDetails now tid JSNull c db)) ! i) = None"
      by (simp add: updateTradeDetails_row [OF i] set_clause_fields)
    have v: "t_id (trades db ! i) = tid
               \<longrightarrow> commission (trades (snd (updateTradeDetails now tid n JSNull db)) ! i) = None"
      by (simp add: updateTradeDetails_row [OF i] set_clause_fields)
    have w: "t_notes (trades (snd (updateTradeDetails now tid JSUndefined c db)) ! i)
               = t_notes (trades db ! i)"
      by (simp add: updateTradeDetails_row [OF i] set_clause_fields)
    have x: "commission (trades (snd (updateTradeDetails now tid n JSUndefined db)) ! i)
               = commission (trades db ! i)"
      by (simp add: updateTradeDetails_row [OF i] set_clause_fields)
    show ?thesis
      unfolding closeTrade_row [OF i]
      using close_row_null [where closeData = closeData and now = now and r = "trades db ! i"]
            u v w x
      by blast
  qed
  with a b show ?thesis by blast
qed

theorem null_preserved_by_closeTrade_stored_by_updateTradeDetails_witness:
  "0 < length (trades sample_tables)
   \<and> cd_notes (sample_close\<lparr>cd_notes := JSNull\<rparr>) = JSNull
   \<and> t_id (trades sample_tables ! 0) = 1
   \<and> t_notes (trades sample_tables ! 0) = Some ''Initial trade notes''
   \<and> t_notes (trades (snd (closeTrade ''2025-01-03T00:00:01.000Z''
                              (sample_close\<lparr>cd_notes := JSNull\<rparr>) sample_tables)) ! 0)
       = Some ''Initial trade notes''
   \<and> t_notes (trades (snd (updateTradeDetails ''2025-01-04T00:00:00.000Z'' 1 JSNull
                              JSUndefined sample_tables)) ! 0) = None"
proof -
  have n: "0 < length (trades sample_tables)" "t_id (trades sample_tables ! 0) = 1"
          "t_notes (trades sample_tables ! 0) = Some ''Initial trade notes''"
    by (simp_all add: sample_tables_def sample_trade_def)
  have u: "cd_notes (sample_close\<lparr>cd_notes := JSNull\<rparr>) = JSNull"
    by simp
  note closed =
    null_preserved_by_closeTrade_stored_by_updateTradeDetails
      [where db = sample_tables and closeData = "sample_close\<lparr>cd_notes := JSNull\<rparr>"
         and now = "''2025-01-03T00:00:01.000Z''",
       THEN conjunct2, THEN conjunct2, rule_format, OF n(1)]
  note updated =
    null_preserved_by_closeTrade_stored_by_updateTradeDetails
      [where db = sample_tables and now = "''2025-01-04T00:00:00.000Z''" and tid = 1
         and c = JSUndefined,
       THEN conjunct2, THEN conjunct2, rule_format, OF n(1)]
  have a: "t_notes (trades (snd (closeTrade ''2025-01-03T00:00:01.000Z''
                              (sample_close\<lparr>cd_notes := JSNull\<rparr>) sample_tables)) ! 0)
             = Some ''Initial trade notes''"
    using closed u n(3) by simp
  have b: "t_notes (trades (snd (updateTradeDetails ''2025-01-04T00:00:00.000Z'' 1 JSNull
                              JSUndefined sample_tables)) ! 0) = None"
    using updated n(2) by simp
  from n u a b show ?thesis by simp
qed

section \<open>The status of a trade\<close>

lemma fold_max_ge_seq: "seq \<le> fold max ids (seq::nat)"
  by (induction ids arbitrary: seq) (auto intro: order_trans [OF max.cobounded2])

lemma fold_max_ge_ids: "x \<in> set ids \<Longrightarrow> x \<le> fold max ids (seq::nat)"
proof (induction ids arbitrary: seq)
  case Nil
  then show ?case by simp
next
  case (Cons a ids)
  show ?case
  proof (cases "x = a")
    case True
    have "a \<le> max a seq" by simp
    also have "max a seq \<le> fold max ids (max a seq)" by (rule fold_max_ge_seq)
    finally show ?thesis using True by simp
  next
    case False
    with Cons show ?thesis by simp
  qed
qed

lemma next_rowid_fresh:
  "seq < next_rowid seq ids" "x \<in> set ids \<Longrightarrow> x < next_rowid seq ids"
  using fold_max_ge_seq [of seq ids] fold_max_ge_ids [of x ids seq]
  by (simp_all add: next_rowid_def less_Suc_eq_le)

lemma createTrade_trades:
  "trades (snd (createTrade now tradeData db)) = trades db \<and>
   trades_seq (snd (createTrade now tradeData db)) = trades_seq db
   \<or> (\<exists>row. t_id row = next_rowid (trades_seq db) (map t_id (trades db))
         \<and> trades (snd (createTrade now tradeData db)) = trades db @ [row]
         \<and> trades_seq (snd (createTrade now tradeData db)) = t_id row)"
  by (auto simp: createTrade_def insert_trade_def Let_def split: option.splits)

lemma find_delete_rows:
  "find (\<lambda>r. t_id r = j) (filter (\<lambda>r. \<not> t_id r = d) rows)
     = (if j = d then None else find (\<lambda>r. t_id r = j) rows)"
  by (induction rows) auto

lemma find_append_rows:
  "find p (xs @ ys) = (case find p xs of None \<Rightarrow> find p ys | Some x \<Rightarrow> Some x)"
  by (induction xs) auto

lemma status_createTrade:
  assumes "trade_status j db = Some s"
  shows "trade_status j (snd (createTrade now tradeData db)) = Some s"
  using assms createTrade_trades [of now tradeData db]
  by (auto simp: trade_status_def findTradeById_def find_append_rows split: option.splits)

lemma status_closeTrade:
  "trade_status j (snd (closeTrade now closeData db))
     = (case trade_status j db of None \<Rightarrow> None
        | Some s \<Rightarrow> Some (if j = cd_id closeData then Closed else s))"
proof (cases "find (\<lambda>r. t_id r = j) (trades db)")
  case None
  then show ?thesis
    by (simp add: trade_status_def findTradeById_def closeTrade_result find_update_rows)
next
  case (Some r)
  then have "t_id r = j"
    by (auto dest: find_Some_iff [THEN iffD1])
  with Some show ?thesis
    by (cases "status r")
       (simp_all add: trade_status_def findTradeById_def closeTrade_result find_update_rows
          close_set_def)
qed

lemma details_set_id [simp]:
  "t_id (fold apply_assignment (fields_to_update now n c) r) = t_id r"
  by (simp add: set_clause_fields)

lemma status_updateTradeDetails:
  "trade_status j (snd (updateTradeDetails now tid n c db)) = trade_status j db"
  by (cases "find (\<lambda>r. t_id r = j) (trades db)")
     (simp_all add: trade_status_def findTradeById_def updateTradeDetails_result
        find_update_rows set_clause_fields)

lemma status_deleteTrade:
  "trade_status j (snd (deleteTrade d db)) = (if j = d then None else trade_status j db)"
  by (simp add: trade_status_def findTradeById_def deleteTrade_def sql_delete_def
        find_delete_rows)

lemma trades_ok_ids:
  "trades_ok db \<longleftrightarrow>
     distinct (map t_id (trades db))
     \<and> (\<forall>i \<in> set (map t_id (trades db)). i \<le> trades_seq db)"
  by (auto simp: trades_ok_def)

lemma trades_ok_apply_op:
  assumes "trades_ok db"
  shows "trades_ok (apply_op op db)"
proof (cases op)
  case (CreateTrade now tradeData)
  from createTrade_trades [of now tradeData db] show ?thesis
  proof
    assume "trades (snd (createTrade now tradeData db)) = trades db \<and>
            trades_seq (snd (createTrade now tradeData db)) = trades_seq db"
    with assms CreateTrade show ?thesis by (simp add: trades_ok_def)
  next
    assume "\<exists>row. t_id row = next_rowid (trades_seq db) (map t_id (trades db))
              \<and> trades (snd (createTrade now tradeData db)) = trades db @ [row]
              \<and> trades_seq (snd (createTrade now tradeData db)) = t_id row"
    then obtain row where row: "t_id row = next_rowid (trades_seq db) (map t_id (trades db))"
        "trades (snd (createTrade now tradeData db)) = trades db @ [row]"
        "trades_seq (snd (createTrade now tradeData db)) = t_id row"
      by blast
    have fresh: "t_id r < t_id row" if "r \<in> set (trades db)" for r
      using that next_rowid_fresh(2) [of "t_id r" "map t_id (trades db)" "trades_seq db"]
      by (simp add: row(1))
    then have "t_id row \<notin> set (map t_id (trades db))"
      by (force simp: image_iff)
    moreover have "\<forall>r \<in> set (trades db). t_id r \<le> t_id row"
      using fresh by (auto intro: less_imp_le)
    ultimately show ?thesis
      using assms CreateTrade row(2,3) by (simp add: trades_ok_def)
  qed
next
  case (CloseTrade now closeData)
  have "map t_id (trades (snd (closeTrade now closeData db))) = map t_id (trades db)"
    by (simp add: closeTrade_result comp_def if_distrib cong: if_cong)
  moreover have "trades_seq (snd (closeTrade now closeData db)) = trades_seq db"
    by (simp add: closeTrade_result)
  ultimately show ?thesis
    using assms CloseTrade
    by (simp only: trades_ok_ids apply_op.simps) blast
next
  case (UpdateTradeDetails now tid n c)
  have "map t_id (trades (snd (updateTradeDetails now tid n c db))) = map t_id (trades db)"
    by (simp add: updateTradeDetails_result comp_def if_distrib cong: if_cong)
  moreover have "trades_seq (snd (updateTradeDetails now tid n c db)) = trades_seq db"
    by (simp add: updateTradeDetails_result)
  ultimately show ?thesis
    using assms UpdateTradeDetails
    by (simp only: trades_ok_ids apply_op.simps) blast
next
  case (DeleteTrade tid)
  then show ?thesis
    using assms by (simp add: trades_ok_def deleteTrade_def sql_delete_def distinct_map_filter)
qed

lemma status_some_le_seq:
  assumes "trades_ok db" and "trade_status tid db = Some s"
  shows "tid \<le> trades_seq db"
proof -
  from assms(2) obtain r where "find (\<lambda>r. t_id r = tid) (trades db) = Some r"
    by (auto simp: trade_status_def findTradeById_def)
  then have "r \<in> set (trades db)" "t_id r = tid"
    by (auto simp: find_Some_iff)
  with assms(1) show ?thesis
    by (auto simp: trades_ok_def)
qed

lemma retired_apply_op:
  assumes ok: "trades_ok db"
    and ret: "trade_status tid db = Some Closed
              \<or> (trade_status tid db = None \<and> tid \<le> trades_seq db)"
  shows "trade_status tid (apply_op op db) = Some Closed
         \<or> (trade_status tid (apply_op op db) = None \<and> tid \<le> trades_seq (apply_op op db))"
proof (cases op)
  case (CreateTrade now tradeData)
  from ret show ?thesis
  proof
    assume "trade_status tid db = Some Closed"
    then show ?thesis
      using CreateTrade by (simp add: status_createTrade)
  next
    assume gone: "trade_status tid db = None \<and> tid \<le> trades_seq db"
    from createTrade_trades [of now tradeData db] show ?thesis
    proof
      assume "trades (snd (createTrade now tradeData db)) = trades db \<and>
              trades_seq (snd (createTrade now tradeData db)) = trades_seq db"
      with gone CreateTrade show ?thesis
        by (simp add: trade_status_def findTradeById_def)
    next
      assume "\<exists>row. t_id row = next_rowid (trades_seq db) (map t_id (trades db))
                \<and> trades (snd (createTrade now tradeData db)) = trades db @ [row]
                \<and> trades_seq (snd (createTrade now tradeData db)) = t_id row"
      then obtain row where
          row: "t_id row = next_rowid (trades_seq db) (map t_id (trades db))"
            "trades (snd (createTrade now tradeData db)) = trades db @ [row]"
            "trades_seq (snd (createTrade now tradeData db)) = t_id row"
        by blast
      have "tid < t_id row"
        using gone next_rowid_fresh(1) [of "trades_seq db" "map t_id (trades db)"]
        by (simp add: row(1))
      with gone CreateTrade row(2,3) show ?thesis
        by (simp add: trade_status_def findTradeById_def find_append_rows
              split: option.splits)
    qed
  qed
next
  case (CloseTrade now closeData)
  have "trades_seq (snd (closeTrade now closeData db)) = trades_seq db"
    by (simp add: closeTrade_result)
  with ret CloseTrade show ?thesis
    by (auto simp: status_closeTrade)
next
  case (UpdateTradeDetails now j n c)
  have "trades_seq (snd (updateTradeDetails now j n c db)) = trades_seq db"
    by (simp add: updateTradeDetails_result)
  with ret UpdateTradeDetails show ?thesis
    by (simp add: status_updateTradeDetails)
next
  case (DeleteTrade j)
  have seq: "trades_seq (snd (deleteTrade j db)) = trades_seq db"
    by (simp add: deleteTrade_def sql_delete_def)
  from ret have "tid \<le> trades_seq db"
    using status_some_le_seq [OF ok] by blast
  with ret DeleteTrade seq show ?thesis
    by (auto simp: status_deleteTrade)
qed

lemma retired_apply_ops:
  assumes "trades_ok db"
    and "trade_status tid db = Some Closed
         \<or> (trade_status tid db = None \<and> tid \<le> trades_seq db)"
  shows "trades_ok (apply_ops ops db)
         \<and> (trade_status tid (apply_ops ops db) = Some Closed
             \<or> (trade_status tid (apply_ops ops db) = None
                 \<and> tid \<le> trades_seq (apply_ops ops db)))"
  using assms
proof (induction ops arbitrary: db)
  case Nil
  then show ?case by (simp add: apply_ops_def)
next
  case (Cons op ops)
  have "trades_ok (apply_op op db)"
    using Cons.prems(1) by (rule trades_ok_apply_op)
  moreover have "trade_status tid (apply_op op db) = Some Closed
      \<or> (trade_status tid (apply_op op db) = None \<and> tid \<le> trades_seq (apply_op op db))"
    using Cons.prems by (rule retired_apply_op)
  ultimately show ?case
    using Cons.IH [of "apply_op op db"] by (simp add: apply_ops_def)
qed

lemma trades_ok_apply_ops: "trades_ok db \<Longrightarrow> trades_ok (apply_ops ops db)"
  by (induction ops arbitrary: db) (simp_all add: apply_ops_def trades_ok_apply_op)

lemma status_change_apply_op:
  assumes "trade_status j db = Some s" and "trade_status j (apply_op op db) = Some s'"
    and "s \<noteq> s'"
  shows "s = Open \<and> s' = Closed \<and> (\<exists>now closeData. op = CloseTrade now closeData
                                         \<and> cd_id closeData = j)"
proof (cases op)
  case (CreateTrade now tradeData)
  with assms show ?thesis by (simp add: status_createTrade)
next
  case (CloseTrade now closeData)
  with assms show ?thesis
    by (cases s) (auto simp: status_closeTrade split: if_splits)
next
  case (UpdateTradeDetails now tid n c)
  with assms show ?thesis by (simp add: status_updateTradeDetails)
next
  case (DeleteTrade tid)
  with assms show ?thesis by (simp add: status_deleteTrade split: if_splits)
qed

lemma closeTrade_closed_noop:
  assumes pk: "distinct (map t_id (trades db))"
    and st: "trade_status (cd_id closeData) db = Some Closed"
  shows "closeTrade now closeData db = (Inr False, db)"
proof -
  from st obtain r where r: "find (\<lambda>r. t_id r = cd_id closeData) (trades db) = Some r"
      "status r = Closed"
    by (auto simp: trade_status_def findTradeById_def)
  have "length (filter (\<lambda>r. t_id r = cd_id closeData \<and> status r = Open) (trades db)) = 0"
    using find_by_id_guard [OF pk r(1), of "\<lambda>r. status r = Open"] r(2) by simp
  then have "filter (\<lambda>r. t_id r = cd_id closeData \<and> status r = Open) (trades db) = []"
    by simp
  then show ?thesis
    by (simp add: closeTrade_result update_no_match)
qed

text \<open>
  Claim C4. A trade has status \<open>open\<close> or \<open>closed\<close>. On a \<open>trades\<close> table as the store
  keeps it, once a trade is closed it is closed or deleted after every sequence of
  \<open>createTrade\<close>, \<open>closeTrade\<close>, \<open>updateTradeDetails\<close> and \<open>deleteTrade\<close>, and its id is
  never given to a new trade. The only change of status one operation makes to a trade
  is from \<open>open\<close> to \<open>closed\<close>, by \<open>closeTrade\<close> with the id of that trade.
  \<open>closeTrade\<close> on a closed trade returns \<open>false\<close> and leaves the whole store
  unchanged, and \<open>updateTradeDetails\<close> leaves the status of every trade as it was.
\<close>

theorem closed_is_terminal:
  assumes ok: "trades_ok db"
  shows "(trade_status tid db = Some Closed
            \<longrightarrow> trade_status tid (apply_ops ops db) = Some Closed
              \<or> trade_status tid (apply_ops ops db) = None)
       \<and> (\<forall>s s'. trade_status tid db = Some s \<and> trade_status tid (apply_op op db) = Some s'
                 \<and> s \<noteq> s'
            \<longrightarrow> s = Open \<and> s' = Closed
              \<and> (\<exists>now closeData. op = CloseTrade now closeData \<and> cd_id closeData = tid))
       \<and> (trade_status tid db = Some Closed \<and> cd_id closeData = tid
            \<longrightarrow> closeTrade now closeData db = (Inr False, db))
       \<and> trade_status j (snd (updateTradeDetails now tid n c db)) = trade_status j db
       \<and> trades_ok (apply_ops ops db)"
proof -
  have a: "trade_status tid db = Some Closed
            \<longrightarrow> trade_status tid (apply_ops ops db) = Some Closed
              \<or> trade_status tid (apply_ops ops db) = None"
  proof
    assume "trade_status tid db = Some Closed"
    then have "trade_status tid (apply_ops ops db) = Some Closed
               \<or> (trade_status tid (apply_ops ops db) = None
                   \<and> tid \<le> trades_seq (apply_ops ops db))"
      using retired_apply_ops [OF ok, of tid ops] by simp
    then show "trade_status tid (apply_ops ops db) = Some Closed
               \<or> trade_status tid (apply_ops ops db) = None"
      by auto
  qed
  have b: "\<forall>s s'. trade_status tid db = Some s \<and> trade_status tid (apply_op op db) = Some s'
                 \<and> s \<noteq> s'
            \<longrightarrow> s = Open \<and> s' = Closed
              \<and> (\<exists>now closeData. op = CloseTrade now closeData \<and> cd_id closeData = tid)"
    using status_change_apply_op [of tid db _ op] by blast
  have c: "trade_status tid db = Some Closed \<and> cd_id closeData = tid
            \<longrightarrow> closeTrade now closeData db = (Inr False, db)"
    using ok closeTrade_closed_noop [of db closeData now] by (auto simp: trades_ok_def)
  have d: "trade_status j (snd (updateTradeDetails now tid n c db)) = trade_status j db"
    by (rule status_updateTradeDetails)
  have e: "trades_ok (apply_ops ops db)"
    using ok by (rule trades_ok_apply_ops)
  from a b c d e show ?thesis by blast
qed

lemma sample_tables_ok: "trades_ok sample_tables"
  by (simp add: trades_ok_def sample_tables_def sample_trade_def)

lemma sample_status_open: "trade_status (cd_id sample_close) sample_tables = Some Open"
  by (simp add: trade_status_def sample_find sample_trade_def)

lemma sample_closed_tables_ok: "trades_ok sample_closed_tables"
  using trades_ok_apply_op [OF sample_tables_ok,
          of "CloseTrade ''2025-01-03T00:00:01.000Z'' sample_close"]
  by (simp add: sample_closed_tables_def)

lemma sample_status_closed:
  "trade_status (cd_id sample_close) sample_closed_tables = Some Closed"
  by (simp add: sample_closed_tables_def status_closeTrade sample_status_open)

theorem closed_is_terminal_witness:
  "trades_ok sample_tables
   \<and> trade_status (cd_id sample_close) sample_tables = Some Open
   \<and> trade_status (cd_id sample_close)
        (apply_op (CloseTrade ''2025-01-03T00:00:01.000Z'' sample_close) sample_tables)
       = Some Closed
   \<and> Open \<noteq> Closed
   \<and> trades_ok sample_closed_tables
   \<and> trade_status (cd_id sample_close) sample_closed_tables = Some Closed
   \<and> closeTrade ''2025-01-05T00:00:00.000Z'' sample_close sample_closed_tables
       = (Inr False, sample_closed_tables)
   \<and> (trade_status (cd_id sample_close) (apply_ops sample_ops sample_closed_tables)
         = Some Closed
       \<or> trade_status (cd_id sample_close) (apply_ops sample_ops sample_closed_tables)
         = None)
   \<and> trades_ok (apply_ops sample_ops sample_closed_tables)"
proof -
  have step: "trade_status (cd_id sample_close)
                (apply_op (CloseTrade ''2025-01-03T00:00:01.000Z'' sample_close) sample_tables)
              = Some Closed"
    using sample_status_closed by (simp add: sample_closed_tables_def)
  note t = closed_is_terminal [OF sample_closed_tables_ok,
             where tid = "cd_id sample_close" and ops = sample_ops
               and closeData = sample_close and now = "''2025-01-05T00:00:00.000Z''"]
  note a = t [THEN conjunct1, rule_format, OF sample_status_closed]
  note c = t [THEN conjunct2, THEN conjunct2, THEN conjunct1, rule_format,
              OF conjI, OF sample_status_closed refl]
  note e = t [THEN conjunct2, THEN conjunct2, THEN conjunct2, THEN conjunct2]
  from sample_tables_ok sample_status_open step sample_closed_tables_ok
       sample_status_closed a c e
  show ?thesis by simp
qed

section \<open>findTradesBySubAccountId\<close>












section \<open>createUser and the schema scripts\<close>

lemma createUser_database_js_never_rejects:
  "\<exists>uid db'. createUser database_js now un em passwordHash db = (Inr uid, db')"
  by (simp add: createUser_def insert_user_def database_js_def Let_def)

lemma createUser_database_test_env_js_rejects:
  assumes "un \<in> set (map username (users db)) \<or> em \<in> set (map email (users db))"
  shows "\<exists>column. createUser database_test_env_js now un em passwordHash db
                    = (Inl (UniqueFailed column), db)"
  using assms by (auto simp: createUser_def insert_user_def database_test_env_js_def)

text \<open>
  Claim C5, on the schema of \<open>src/db/database.js\<close>, the connection module that
  \<open>user_repository.js\<close> imports: a second \<open>createUser\<close> with the username and the email
  of the stored user succeeds with id 2, and the table then holds two users with that
  username and email.
\<close>

theorem createUser_database_js_duplicate_accepted:
  "createUser database_js ''2025-01-07T00:00:00.000Z'' ''tradeUser'' ''trade@example.com''
       ''hashed_other'' sample_tables
     = (Inr 2,
        sample_tables
          \<lparr>users := [sample_user,
                     \<lparr>u_id = 2, username = ''tradeUser'', email = ''trade@example.com'',
                      password_hash = ''hashed_other'',
                      u_created_at = ''2025-01-07T00:00:00.000Z'',
                      u_updated_at = ''2025-01-07T00:00:00.000Z''\<rparr>],
           users_seq := 2\<rparr>)
   \<and> username sample_user = ''tradeUser'' \<and> email sample_user = ''trade@example.com''"
  by (simp add: createUser_def insert_user_def database_js_def next_rowid_def
        sample_tables_def sample_user_def)

section \<open>The exports of the user repository\<close>

text \<open>
  Claim C7. The module exports \<open>createUser\<close>, \<open>findUserById\<close>, \<open>findUserByEmail\<close>,
  \<open>createUserWithSettings\<close> and \<open>findSettingsByUserId\<close>; \<open>findUserByUsername\<close>, which the
  test suite imports from it and calls, is not among its exports.
\<close>

theorem findUserByUsername_not_exported:
  "''findUserByUsername'' \<notin> set user_repository_exports
   \<and> ''findUserByEmail'' \<in> set user_repository_exports"
  by (simp add: user_repository_exports_def)

section \<open>createUserWithSettings\<close>

lemma insert_user_result:
  "insert_user sch un em ph cr up db = Inr (uid, db') \<Longrightarrow>
   uid = next_rowid (users_seq db) (map u_id (users db))
   \<and> db' = db\<lparr>users := users db @ [\<lparr>u_id = uid, username = un, email = em,
                                        password_hash = ph, u_created_at = cr,
                                        u_updated_at = up\<rparr>],
               users_seq := uid\<rparr>"
  by (auto simp: insert_user_def Let_def split: if_splits)

lemma insert_settings_result:
  "insert_settings uid cy th cr up db = Inr (x, db') \<Longrightarrow>
   uid \<notin> set (map s_user_id (user_settings db))
   \<and> db' = db\<lparr>user_settings := user_settings db @ [\<lparr>s_user_id = uid, default_currency = cy,
                                                        theme = th, s_created_at = cr,
                                                        s_updated_at = up\<rparr>]\<rparr>"
  by (auto simp: insert_settings_def Let_def split: if_splits)

lemma createUserWithSettings_settled:
  "\<exists>r. fst (createUserWithSettings sch now un em ph ds c) = Some r"
  by (auto simp: createUserWithSettings_def settle_def sql_begin_def sql_commit_def
        sql_rollback_def run_def
      split: option.splits sum.splits prod.splits)

lemma createUserWithSettings_success:
  assumes "createUserWithSettings sch now un em ph ds c = (Some (Inr uid), c')"
  shows "saved c = None \<and> saved c' = None
       \<and> uid = next_rowid (users_seq (cur c)) (map u_id (users (cur c)))
       \<and> uid \<notin> set (map s_user_id (user_settings (cur c)))
       \<and> cur c' = (cur c)
           \<lparr>users := users (cur c) @ [\<lparr>u_id = uid, username = un, email = em,
                                         password_hash = ph, u_created_at = now,
                                         u_updated_at = now\<rparr>],
            users_seq := uid,
            user_settings := user_settings (cur c)
               @ [\<lparr>s_user_id = uid,
                    default_currency = js_or (ds_default_currency ds) ''USD'',
                    theme = js_or (ds_theme ds) ''light'',
                    s_created_at = now, s_updated_at = now\<rparr>]\<rparr>"
proof (cases "saved c")
  case (Some db)
  then have "\<exists>e. fst (createUserWithSettings sch now un em ph ds c) = Some (Inl e)"
    by (auto simp: createUserWithSettings_def settle_def sql_begin_def sql_commit_def
          sql_rollback_def run_def
        split: option.splits sum.splits prod.splits)
  with assms show ?thesis by simp
next
  case None
  obtain r1 c2 where u: "run (insert_user sch un em ph now now) (c\<lparr>saved := Some (cur c)\<rparr>)
                           = (r1, c2)"
    by (cases "run (insert_user sch un em ph now now) (c\<lparr>saved := Some (cur c)\<rparr>)")
  show ?thesis
  proof (cases r1)
    case (Inl e)
    with assms None u show ?thesis
      by (simp add: createUserWithSettings_def sql_begin_def settle_def
            split: prod.splits)
  next
    case (Inr userId)
    from u Inr obtain db2 where
        i: "insert_user sch un em ph now now (cur c) = Inr (userId, db2)"
        and c2: "c2 = \<lparr>cur = db2, saved = Some (cur c)\<rparr>"
      by (auto simp: run_def split: sum.splits)
    obtain r2 c3 where
        s: "run (insert_settings userId (js_or (ds_default_currency ds) ''USD'')
                   (js_or (ds_theme ds) ''light'') now now) c2 = (r2, c3)"
      by (cases "run (insert_settings userId (js_or (ds_default_currency ds) ''USD'')
                        (js_or (ds_theme ds) ''light'') now now) c2")
    show ?thesis
    proof (cases r2)
      case (Inl e)
      with assms None u Inr s show ?thesis
        by (simp add: createUserWithSettings_def sql_begin_def settle_def
              split: prod.splits)
    next
      case inr2: (Inr x)
      from s inr2 c2 obtain db3 where
          j: "insert_settings userId (js_or (ds_default_currency ds) ''USD'')
                (js_or (ds_theme ds) ''light'') now now db2 = Inr (x, db3)"
          and c3: "c3 = \<lparr>cur = db3, saved = Some (cur c)\<rparr>"
        by (auto simp: run_def split: sum.splits)
      have res: "createUserWithSettings sch now un em ph ds c
                   = (Some (Inr userId), \<lparr>cur = db3, saved = None\<rparr>)"
        using None u Inr s inr2 c3
        by (simp add: createUserWithSettings_def sql_begin_def sql_commit_def settle_def)
      with assms have eq: "uid = userId" "c' = \<lparr>cur = db3, saved = None\<rparr>"
        by simp_all
      from insert_user_result [OF i] insert_settings_result [OF j] None eq
      show ?thesis by simp
    qed
  qed
qed

lemma conn_idle_eq: "saved c = None \<Longrightarrow> \<lparr>cur = cur c, saved = None\<rparr> = (c::conn)"
  by (cases c) simp

lemma createUserWithSettings_failure_restores:
  assumes idle: "saved c = None"
    and "createUserWithSettings sch now un em ph ds c = (Some (Inl e), c')"
  shows "c' = c"
proof -
  obtain r1 c2 where u: "run (insert_user sch un em ph now now) (c\<lparr>saved := Some (cur c)\<rparr>)
                           = (r1, c2)"
    by (cases "run (insert_user sch un em ph now now) (c\<lparr>saved := Some (cur c)\<rparr>)")
  then have s2: "saved c2 = Some (cur c)"
    by (auto simp: run_def split: sum.splits prod.splits)
  show ?thesis
  proof (cases r1)
    case (Inl userErr)
    with assms u s2 show ?thesis
      by (auto simp: createUserWithSettings_def sql_begin_def sql_rollback_def settle_def
            conn_idle_eq)
  next
    case (Inr userId)
    obtain r2 c3 where
        s: "run (insert_settings userId (js_or (ds_default_currency ds) ''USD'')
                   (js_or (ds_theme ds) ''light'') now now) c2 = (r2, c3)"
      by (cases "run (insert_settings userId (js_or (ds_default_currency ds) ''USD'')
                        (js_or (ds_theme ds) ''light'') now now) c2")
    then have s3: "saved c3 = Some (cur c)"
      using s2 by (auto simp: run_def split: sum.splits prod.splits)
    show ?thesis
    proof (cases r2)
      case (Inl settingsErr)
      with assms u Inr s s3 show ?thesis
        by (auto simp: createUserWithSettings_def sql_begin_def sql_rollback_def settle_def
            conn_idle_eq)
    next
      case inr2: (Inr x)
      with assms u Inr s s3 show ?thesis
        by (simp add: createUserWithSettings_def sql_begin_def sql_commit_def settle_def)
    qed
  qed
qed

text \<open>
  Claim C1, on a connection that already has a transaction open (another caller of
  the shared handle has issued BEGIN and not yet COMMIT): BEGIN fails and the promise
  is rejected with that error, yet the user INSERT, the settings INSERT and the COMMIT
  still run. Afterwards the User row and its Settings row are both stored and
  committed, although the caller was told that the operation failed.
\<close>

theorem createUserWithSettings_begin_failure_still_inserts:
  "createUserWithSettings database_test_env_js ''2025-01-07T00:00:00.000Z'' ''newUser''
       ''new@example.com'' ''hashed_newPass'' sample_settings busy_conn
     = (Some (Inl (TransactionError ''cannot start a transaction within a transaction'')),
        \<lparr>cur = empty_tables
                 \<lparr>users := [\<lparr>u_id = 1, username = ''newUser'', email = ''new@example.com'',
                              password_hash = ''hashed_newPass'',
                              u_created_at = ''2025-01-07T00:00:00.000Z'',
                              u_updated_at = ''2025-01-07T00:00:00.000Z''\<rparr>],
                  user_settings := [\<lparr>s_user_id = 1, default_currency = ''EUR'',
                                      theme = ''dark'',
                                      s_created_at = ''2025-01-07T00:00:00.000Z'',
                                      s_updated_at = ''2025-01-07T00:00:00.000Z''\<rparr>],
                  users_seq := 1\<rparr>,
         saved = None\<rparr>)"
  by (simp add: createUserWithSettings_def busy_conn_def idle_conn_def sql_begin_def
        sql_commit_def run_def insert_user_def insert_settings_def settle_def
        next_rowid_def empty_tables_def sample_settings_def database_test_env_js_def)

lemma filter_appended:
  "\<forall>y \<in> set xs. \<not> p y \<Longrightarrow> p x \<Longrightarrow> filter p (xs @ [x]) = [x]"
  by (induction xs) auto

lemma js_or_cases:
  "(\<forall>v. x = JSVal v \<and> v \<noteq> [] \<longrightarrow> js_or x d = v)
   \<and> (x = JSUndefined \<or> x = JSNull \<or> x = JSVal [] \<longrightarrow> js_or x d = d)"
  by (cases x) auto

text \<open>
  Claim C9, amended. When \<open>createUserWithSettings\<close> succeeds with id \<open>uid\<close>, the
  \<open>users\<close> table holds exactly one row with \<open>id = uid\<close>, the one just inserted, and the
  \<open>user_settings\<close> table holds exactly one row with \<open>user_id = uid\<close>. The
  \<open>default_currency\<close> of that row is the supplied string when that string is not empty,
  and \<open>USD\<close> when the field is omitted, \<open>null\<close> or the empty string; likewise its
  \<open>theme\<close>, with \<open>light\<close>.
\<close>

theorem createUserWithSettings_settings_row:
  assumes run: "createUserWithSettings sch now un em ph ds c = (Some (Inr uid), c')"
  shows "(\<exists>u. filter (\<lambda>r. u_id r = uid) (users (cur c')) = [u]
              \<and> username u = un \<and> email u = em)
       \<and> (\<exists>row. filter (\<lambda>r. s_user_id r = uid) (user_settings (cur c')) = [row]
              \<and> (\<forall>v. ds_default_currency ds = JSVal v \<and> v \<noteq> []
                     \<longrightarrow> default_currency row = v)
              \<and> (ds_default_currency ds = JSUndefined \<or> ds_default_currency ds = JSNull
                    \<or> ds_default_currency ds = JSVal []
                   \<longrightarrow> default_currency row = ''USD'')
              \<and> (\<forall>v. ds_theme ds = JSVal v \<and> v \<noteq> [] \<longrightarrow> theme row = v)
              \<and> (ds_theme ds = JSUndefined \<or> ds_theme ds = JSNull \<or> ds_theme ds = JSVal []
                   \<longrightarrow> theme row = ''light''))"
proof -
  let ?u = "\<lparr>u_id = uid, username = un, email = em, password_hash = ph,
             u_created_at = now, u_updated_at = now\<rparr>"
  let ?row = "\<lparr>s_user_id = uid, default_currency = js_or (ds_default_currency ds) ''USD'',
               theme = js_or (ds_theme ds) ''light'', s_created_at = now,
               s_updated_at = now\<rparr>"
  note s = createUserWithSettings_success [OF run]
  have uid: "uid = next_rowid (users_seq (cur c)) (map u_id (users (cur c)))"
    using s by simp
  have "uid \<notin> set (map s_user_id (user_settings (cur c)))"
    using s by blast
  then have fresh_s: "\<forall>y \<in> set (user_settings (cur c)). \<not> s_user_id y = uid"
    by (force simp: image_iff)
  have fresh_u: "\<forall>y \<in> set (users (cur c)). \<not> u_id y = uid"
  proof
    fix y assume "y \<in> set (users (cur c))"
    then have "u_id y < uid"
      using next_rowid_fresh(2) [of "u_id y" "map u_id (users (cur c))" "users_seq (cur c)"]
      by (simp add: uid)
    then show "\<not> u_id y = uid" by simp
  qed
  have us: "users (cur c') = users (cur c) @ [?u]"
    and ss: "user_settings (cur c') = user_settings (cur c) @ [?row]"
    using s by simp_all
  have a: "filter (\<lambda>r. u_id r = uid) (users (cur c')) = [?u]"
    using filter_appended [of "users (cur c)" "\<lambda>r. u_id r = uid" ?u] fresh_u
    by (simp add: us)
  have f: "filter (\<lambda>r. s_user_id r = uid) (user_settings (cur c')) = [?row]"
    using filter_appended [of "user_settings (cur c)" "\<lambda>r. s_user_id r = uid" ?row] fresh_s
    by (simp add: ss)
  have cy: "(\<forall>v. ds_default_currency ds = JSVal v \<and> v \<noteq> [] \<longrightarrow> default_currency ?row = v)
       \<and> (ds_default_currency ds = JSUndefined \<or> ds_default_currency ds = JSNull
            \<or> ds_default_currency ds = JSVal []
           \<longrightarrow> default_currency ?row = ''USD'')"
    using js_or_cases [of "ds_default_currency ds" "''USD''"] by simp
  have th: "(\<forall>v. ds_theme ds = JSVal v \<and> v \<noteq> [] \<longrightarrow> theme ?row = v)
       \<and> (ds_theme ds = JSUndefined \<or> ds_theme ds = JSNull \<or> ds_theme ds = JSVal []
           \<longrightarrow> theme ?row = ''light'')"
    using js_or_cases [of "ds_theme ds" "''light''"] by simp
  have "\<exists>u. filter (\<lambda>r. u_id r = uid) (users (cur c')) = [u]
            \<and> username u = un \<and> email u = em"
    using a by simp
  moreover have "\<exists>row. filter (\<lambda>r. s_user_id r = uid) (user_settings (cur c')) = [row]
              \<and> (\<forall>v. ds_default_currency ds = JSVal v \<and> v \<noteq> []
                     \<longrightarrow> default_currency row = v)
              \<and> (ds_default_currency ds = JSUndefined \<or> ds_default_currency ds = JSNull
                    \<or> ds_default_currency ds = JSVal []
                   \<longrightarrow> default_currency row = ''USD'')
              \<and> (\<forall>v. ds_theme ds = JSVal v \<and> v \<noteq> [] \<longrightarrow> theme row = v)
              \<and> (ds_theme ds = JSUndefined \<or> ds_theme ds = JSNull \<or> ds_theme ds = JSVal []
                   \<longrightarrow> theme row = ''light'')"
    using f cy th by (intro exI [of _ ?row] conjI) blast+
  ultimately show ?thesis by (rule conjI)
qed

lemma sample_settings_run:
  "createUserWithSettings database_test_env_js ''2025-01-07T00:00:00.000Z'' ''testuserTx''
       ''tx@example.com'' ''hashed_passwordTx'' sample_settings idle_conn
     = (Some (Inr 1),
        snd (createUserWithSettings database_test_env_js ''2025-01-07T00:00:00.000Z''
               ''testuserTx'' ''tx@example.com'' ''hashed_passwordTx'' sample_settings
               idle_conn))"
  by (simp add: createUserWithSettings_def idle_conn_def sql_begin_def
        sql_commit_def run_def insert_user_def insert_settings_def settle_def
        next_rowid_def empty_tables_def sample_settings_def database_test_env_js_def)

theorem createUserWithSettings_settings_row_witness:
  "createUserWithSettings database_test_env_js ''2025-01-07T00:00:00.000Z'' ''testuserTx''
       ''tx@example.com'' ''hashed_passwordTx'' sample_settings idle_conn
     = (Some (Inr 1),
        snd (createUserWithSettings database_test_env_js ''2025-01-07T00:00:00.000Z''
               ''testuserTx'' ''tx@example.com'' ''hashed_passwordTx'' sample_settings
               idle_conn))
   \<and> ds_default_currency sample_settings = JSVal ''EUR'' \<and> ''EUR'' \<noteq> []
   \<and> ds_theme sample_settings = JSVal ''dark'' \<and> ''dark'' \<noteq> []
   \<and> map default_currency
        (filter (\<lambda>r. s_user_id r = 1)
           (user_settings
              (cur (snd (createUserWithSettings database_test_env_js
                           ''2025-01-07T00:00:00.000Z'' ''testuserTx'' ''tx@example.com''
                           ''hashed_passwordTx'' sample_settings idle_conn)))))
       = [''EUR'']
   \<and> map theme
        (filter (\<lambda>r. s_user_id r = 1)
           (user_settings
              (cur (snd (createUserWithSettings database_test_env_js
                           ''2025-01-07T00:00:00.000Z'' ''testuserTx'' ''tx@example.com''
                           ''hashed_passwordTx'' sample_settings idle_conn)))))
       = [''dark'']"
proof -
  have cy: "ds_default_currency sample_settings = JSVal ''EUR'' \<and> ''EUR'' \<noteq> []"
    by (simp add: sample_settings_def)
  have th: "ds_theme sample_settings = JSVal ''dark'' \<and> ''dark'' \<noteq> []"
    by (simp add: sample_settings_def)
  obtain row where row:
      "filter (\<lambda>r. s_user_id r = 1)
         (user_settings
            (cur (snd (createUserWithSettings database_test_env_js
                         ''2025-01-07T00:00:00.000Z'' ''testuserTx'' ''tx@example.com''
                         ''hashed_passwordTx'' sample_settings idle_conn)))) = [row]"
      "\<forall>v. ds_default_currency sample_settings = JSVal v \<and> v \<noteq> []
           \<longrightarrow> default_currency row = v"
      "\<forall>v. ds_theme sample_settings = JSVal v \<and> v \<noteq> [] \<longrightarrow> theme row = v"
    using createUserWithSettings_settings_row [OF sample_settings_run, THEN conjunct2]
    by blast
  have "default_currency row = ''EUR''"
    using row(2) [rule_format, OF cy] .
  moreover have "theme row = ''dark''"
    using row(3) [rule_format, OF th] .
  ultimately have "map default_currency [row] = [''EUR'']" "map theme [row] = [''dark'']"
    by simp_all
  then show ?thesis
    using sample_settings_run cy th by (simp only: row(1)) simp
qed

text \<open>
  The claim as stated fails for a supplied empty string: the caller passes
  \<open>default_currency: ""\<close> and the stored Settings row holds \<open>USD\<close>.
\<close>

theorem createUserWithSettings_empty_currency_counterexample:
  "ds_default_currency empty_currency_settings = JSVal []
   \<and> fst (createUserWithSettings database_test_env_js ''2025-01-07T00:00:00.000Z''
            ''testuserTx'' ''tx@example.com'' ''hashed_passwordTx'' empty_currency_settings
            idle_conn) = Some (Inr 1)
   \<and> map default_currency
        (user_settings
           (cur (snd (createUserWithSettings database_test_env_js
                        ''2025-01-07T00:00:00.000Z'' ''testuserTx'' ''tx@example.com''
                        ''hashed_passwordTx'' empty_currency_settings idle_conn))))
       = [''USD'']
   \<and> ''USD'' \<noteq> []"
  by (simp add: createUserWithSettings_def idle_conn_def sql_begin_def
        sql_commit_def run_def insert_user_def insert_settings_def settle_def
        next_rowid_def empty_tables_def empty_currency_settings_def
        database_test_env_js_def)

end
